theory Spec2Isabelle
  imports Main "HOL-Library.Char_ord" "HOL-Library.List_Lexorder"
begin

section \<open>Template instantiation and synchronisation engine of the Focalboard MCP server\<close>

text \<open>
  A shallow embedding of the template utilities and template tools of
  \<^verbatim>\<open>src/mcp-focalboard-server/server.py\<close>: \<^verbatim>\<open>_substitute_variables\<close>,
  \<^verbatim>\<open>_discover_templates\<close>, \<^verbatim>\<open>_load_template\<close>, \<^verbatim>\<open>_save_template\<close>,
  \<^verbatim>\<open>focalboard_instantiate_template\<close>, \<^verbatim>\<open>focalboard_sync_template\<close>,
  \<^verbatim>\<open>focalboard_get_board_tracking\<close> and \<^verbatim>\<open>focalboard_set_board_tracking\<close>.

  Conventions. A Python \<^verbatim>\<open>dict\<close> whose order matters is an association list with
  distinct keys, in insertion order. A JSON object read with \<^verbatim>\<open>d.get(k, default)\<close> is a
  record whose field \<open>k\<close> is an \<open>option\<close>, \<open>None\<close> standing for the absent key. An
  exception that the source does not catch is a value \<open>Inl e\<close>. The clock and the random
  block ids are inputs of the model.

  A template document is typed: a key that is present holds a value of the JSON type that
  the template documents of the repository give it (a title is a string, a checklist is
  an array). A document that breaks this, a task whose title is \<^verbatim>\<open>null\<close> for one, makes
  the tools raise where they call a string or dictionary method on the value; such
  documents are outside the model. A string is the sequence of the bytes of its UTF-8
  encoding; replacing a pattern that is not empty, concatenating and comparing act on the
  bytes as they do on the characters.
\<close>

subsection \<open>Exceptions\<close>

datatype py_error = AttributeError | KeyError | TypeError | OSError | UnicodeDecodeError

subsection \<open>Strings\<close>

text \<open>
  \<^verbatim>\<open>str.replace(old, new)\<close>: a scan from the left that replaces each occurrence of
  \<open>old\<close> and resumes after it, so the occurrences replaced do not overlap and the text
  inserted is not scanned again. For the empty pattern Python inserts \<open>new\<close> before every
  character and at the end (the tools never pass an empty pattern: it is \<^verbatim>\<open>"-"\<close> or a
  token \<^verbatim>\<open>${key}\<close>).
\<close>

function str_replace :: "string \<Rightarrow> string \<Rightarrow> string \<Rightarrow> string" where
  "str_replace [] old new = (if old = [] then new else [])"
| "str_replace (c # cs) old new =
     (if old = [] then new @ c # str_replace cs old new
      else if take (length old) (c # cs) = old
           then new @ str_replace (drop (length old) (c # cs)) old new
           else c # str_replace cs old new)"
  by pat_completeness auto
termination
  by (relation "measure (\<lambda>(s, old, new). length s)") auto

text \<open>\<^verbatim>\<open>old in s\<close> for strings.\<close>

fun contains :: "string \<Rightarrow> string \<Rightarrow> bool" where
  "contains [] old = (old = [])"
| "contains (c # cs) old = (take (length old) (c # cs) = old \<or> contains cs old)"

definition ascii_lowercase :: string where
  "ascii_lowercase = ''abcdefghijklmnopqrstuvwxyz''"

definition ascii_uppercase :: string where
  "ascii_uppercase = ''ABCDEFGHIJKLMNOPQRSTUVWXYZ''"

definition is_cased :: "char \<Rightarrow> bool" where
  "is_cased c = (c \<in> set (ascii_lowercase @ ascii_uppercase))"

definition to_upper :: "char \<Rightarrow> char" where
  "to_upper c = (case map_of (zip ascii_lowercase ascii_uppercase) c of Some u \<Rightarrow> u | None \<Rightarrow> c)"

definition to_lower :: "char \<Rightarrow> char" where
  "to_lower c = (case map_of (zip ascii_uppercase ascii_lowercase) c of Some l \<Rightarrow> l | None \<Rightarrow> c)"

text \<open>
  \<^verbatim>\<open>str.title()\<close>: a cased character is upper-cased when the character before it is
  not cased (or there is none) and lower-cased otherwise; other characters are kept. Of
  the ASCII characters the letters are the cased ones. Which characters beyond ASCII are
  cased, and their upper and lower case, is in the Unicode tables of the Python runtime,
  not in the repository: for a string that is not ASCII the result is a parameter,
  \<open>unicode_title\<close>.
\<close>

fun title_from :: "bool \<Rightarrow> string \<Rightarrow> string" where
  "title_from previous_is_cased [] = []"
| "title_from previous_is_cased (c # cs) =
     (if is_cased c
      then (if previous_is_cased then to_lower c else to_upper c) # title_from True cs
      else c # title_from False cs)"

definition is_ascii :: "char \<Rightarrow> bool" where
  "is_ascii c = (of_char c < (128 :: nat))"

definition py_title :: "(string \<Rightarrow> string) \<Rightarrow> string \<Rightarrow> string" where
  "py_title unicode_title s =
     (if list_all is_ascii s then title_from False s else unicode_title s)"

text \<open>\<^verbatim>\<open>str(n)\<close> for an integer, as an f-string renders it.\<close>

function str_nat :: "nat \<Rightarrow> string" where
  "str_nat n = (if n < 10 then [''0123456789'' ! n]
                else str_nat (n div 10) @ [''0123456789'' ! (n mod 10)])"
  by pat_completeness auto
termination
  by (relation "measure id") auto

declare str_nat.simps [simp del]

definition str_int :: "int \<Rightarrow> string" where
  "str_int i = (if i < 0 then CHR ''-'' # str_nat (nat (- i)) else str_nat (nat i))"

subsection \<open>Dictionaries in insertion order\<close>

text \<open>\<^verbatim>\<open>d[k] = v\<close>: an existing key keeps its position, a new key goes last.\<close>

fun dict_set :: "'k \<Rightarrow> 'v \<Rightarrow> ('k \<times> 'v) list \<Rightarrow> ('k \<times> 'v) list" where
  "dict_set k v [] = [(k, v)]"
| "dict_set k v ((k', v') # d) = (if k' = k then (k, v) # d else (k', v') # dict_set k v d)"

text \<open>\<^verbatim>\<open>d.get(k, default)\<close> and \<^verbatim>\<open>d.setdefault(k, v)\<close>.\<close>

definition dict_get :: "('k \<times> 'v) list \<Rightarrow> 'k \<Rightarrow> 'v \<Rightarrow> 'v" where
  "dict_get d k dflt = (case map_of d k of Some v \<Rightarrow> v | None \<Rightarrow> dflt)"

definition setdefault :: "'k \<Rightarrow> 'v \<Rightarrow> ('k \<times> 'v) list \<Rightarrow> ('k \<times> 'v) list" where
  "setdefault k v d = (if k \<in> fst ` set d then d else d @ [(k, v)])"

text \<open>\<^verbatim>\<open>x.get(k, default)\<close> on a record field.\<close>

definition get_or :: "'a option \<Rightarrow> 'a \<Rightarrow> 'a" where
  "get_or field dflt = (case field of Some v \<Rightarrow> v | None \<Rightarrow> dflt)"

subsection \<open>Variable substitution\<close>

definition token :: "string \<Rightarrow> string" where
  "token key = ''${'' @ key @ ''}''"

text \<open>The loop of \<^verbatim>\<open>_substitute_variables\<close> over \<^verbatim>\<open>variables.items()\<close>.\<close>

fun substitute_loop :: "string \<Rightarrow> (string \<times> string) list \<Rightarrow> string" where
  "substitute_loop result [] = result"
| "substitute_loop result ((key, val) # rest) =
     substitute_loop (str_replace result (token key) val) rest"

definition substitute_variables :: "string \<Rightarrow> (string \<times> string) list \<Rightarrow> string" where
  "substitute_variables text variables =
     (if variables = [] then text else substitute_loop text variables)"

subsection \<open>Template documents\<close>

text \<open>
  The JSON document of a template, with the keys that the tools read. Every key is read
  with \<^verbatim>\<open>.get\<close>, so every field is optional. A checklist entry is a bare string or an
  object. Of the keys of the document that the tools do not read the model keeps whether
  there are any (\<open>other_keys\<close>): \<^verbatim>\<open>not template\<close> holds of the object without any key
  only, and a document is written back with all its keys.
\<close>

record select_option =
  option_id :: "string option"
  option_value :: "string option"

record property_definition =
  property_id :: "string option"
  property_name :: "string option"
  property_options :: "select_option list option"

datatype checklist_entry =
  ItemStr string
| ItemDict (item_title: "string option") (item_checked: "bool option")

record content_block =
  block_type :: "string option"
  block_content :: "string option"

record task =
  task_id :: "string option"
  task_title :: "string option"
  task_icon :: "string option"
  task_status :: "string option"
  task_checklist :: "checklist_entry list option"
  task_content_blocks :: "content_block list option"

record phase =
  phase_number :: "int option"
  phase_tasks :: "task list option"

record board_config =
  config_title :: "string option"
  config_description :: "string option"
  config_icon :: "string option"
  config_type :: "string option"
  cardProperties :: "property_definition list option"

record template_meta =
  meta_id :: "string option"
  meta_name :: "string option"
  meta_version :: "string option"
  meta_description :: "string option"
  meta_author :: "string option"
  meta_complexity :: "string option"
  meta_tags :: "string list option"

record proposal =
  proposal_id :: string
  proposal_created :: string
  proposal_type :: string
  target_phase :: int
  change_title :: "string option"
  rationale :: string
  source_instances :: "(string \<times> string) list"
  votes_approve :: "string list"
  votes_reject :: "string list"
  proposal_status :: string

record feedback_section =
  pending_proposals :: "proposal list option"
  approved_proposals :: "proposal list option"
  rejected_proposals :: "proposal list option"

record instance_record =
  instance_board_id :: string
  instance_project_name :: string
  instance_created :: string
  template_version :: string
  current_version :: string
  instance_upgrade_status :: string

record instances_section =
  active :: "instance_record list option"
  archived :: "instance_record list option"

record template =
  meta :: "template_meta option"
  board :: "board_config option"
  phases :: "phase list option"
  feedback :: "feedback_section option"
  instances :: "instances_section option"
  other_keys :: bool

text \<open>The empty JSON object, the one template document that \<^verbatim>\<open>not template\<close> holds of.\<close>

definition empty_document :: template where
  "empty_document = \<lparr>meta = None, board = None, phases = None, feedback = None,
     instances = None, other_keys = False\<rparr>"

definition empty_meta :: template_meta where
  "empty_meta = \<lparr>meta_id = None, meta_name = None, meta_version = None,
     meta_description = None, meta_author = None, meta_complexity = None, meta_tags = None\<rparr>"

subsection \<open>The template directory\<close>

text \<open>
  \<^verbatim>\<open>TEMPLATE_BASE_DIR\<close> holds category directories, each holding template directories,
  each holding \<^verbatim>\<open>template.json\<close>. The lists give the order of \<^verbatim>\<open>iterdir()\<close>; the names
  in a directory are distinct, and a lookup takes the first entry of the name. A
  \<open>template_file\<close> says what opening and parsing the file does:
  \<^item> \<open>Missing\<close>: the file does not exist;
  \<^item> \<open>Unreadable\<close>: \<^verbatim>\<open>open\<close> for reading raises \<^verbatim>\<open>IOError\<close>;
  \<^item> \<open>InvalidUtf8\<close>: reading the text raises \<^verbatim>\<open>UnicodeDecodeError\<close>;
  \<^item> \<open>InvalidJson\<close>: \<^verbatim>\<open>json.load\<close> raises \<^verbatim>\<open>JSONDecodeError\<close>;
  \<^item> \<open>NonObject\<close>: the file holds valid JSON that is not an object (an array, a string, a
    number), so \<^verbatim>\<open>json.load\<close> returns a value without a \<^verbatim>\<open>.get\<close> method;
  \<^item> \<open>Document d\<close>: the file holds the JSON object \<open>d\<close>.

  The flag of a template directory says whether \<^verbatim>\<open>open\<close> of its \<^verbatim>\<open>template.json\<close> for
  writing succeeds (the permissions of the directory and of the file allow it); it is
  independent of what reading the file does. \<open>None\<close> for the base is the case where
  \<^verbatim>\<open>TEMPLATE_BASE_DIR\<close> does not exist.
\<close>

datatype template_file =
  Missing | Unreadable | InvalidUtf8 | InvalidJson | NonObject | Document template

datatype dir_entry = PlainFile | TemplateDir bool template_file

datatype base_entry = OtherFile | CategoryDir "(string \<times> dir_entry) list"

type_synonym template_base = "(string \<times> base_entry) list option"

record summary =
  summary_id :: string
  summary_name :: string
  summary_version :: string
  summary_category :: string
  summary_description :: string
  summary_author :: string
  summary_complexity :: string
  summary_tags :: "string list"
  summary_path :: "string \<times> string"
  phases_count :: nat
  tasks_count :: nat

text \<open>The dictionary that \<^verbatim>\<open>_discover_templates\<close> appends for a parsed document.\<close>

definition summarize :: "string \<Rightarrow> string \<Rightarrow> template \<Rightarrow> summary" where
  "summarize category_name dir_name d =
     (let m = get_or (meta d) empty_meta
      in \<lparr>summary_id = get_or (meta_id m) dir_name,
          summary_name = get_or (meta_name m) dir_name,
          summary_version = get_or (meta_version m) ''0.0.0'',
          summary_category = category_name,
          summary_description = get_or (meta_description m) [],
          summary_author = get_or (meta_author m) ''Unknown'',
          summary_complexity = get_or (meta_complexity m) ''medium'',
          summary_tags = get_or (meta_tags m) [],
          summary_path = (category_name, dir_name),
          phases_count = length (get_or (phases d) []),
          tasks_count =
            sum_list (map (\<lambda>p. length (get_or (phase_tasks p) [])) (get_or (phases d) []))\<rparr>)"

text \<open>
  What \<^verbatim>\<open>_discover_templates\<close> does with one \<^verbatim>\<open>template.json\<close>: the test
  \<^verbatim>\<open>template_file.exists()\<close> and the \<^verbatim>\<open>try\<close> block. The clause
  \<^verbatim>\<open>except (json.JSONDecodeError, IOError)\<close> skips an unreadable file and a file that is not
  JSON. The \<^verbatim>\<open>UnicodeDecodeError\<close> of a file that is not UTF-8 text and the
  \<^verbatim>\<open>AttributeError\<close> of \<^verbatim>\<open>template.get\<close> on a value that is not an object are not in the
  clause and leave the function.
\<close>

fun read_summary :: "string \<Rightarrow> string \<Rightarrow> template_file \<Rightarrow> py_error + summary option" where
  "read_summary category_name dir_name Missing = Inr None"
| "read_summary category_name dir_name Unreadable = Inr None"
| "read_summary category_name dir_name InvalidUtf8 = Inl UnicodeDecodeError"
| "read_summary category_name dir_name InvalidJson = Inr None"
| "read_summary category_name dir_name NonObject = Inl AttributeError"
| "read_summary category_name dir_name (Document d) =
     Inr (Some (summarize category_name dir_name d))"

text \<open>The inner loop, over the entries of one category directory.\<close>

fun scan_template_dirs ::
  "string \<Rightarrow> (string \<times> dir_entry) list \<Rightarrow> summary list \<Rightarrow> py_error + summary list" where
  "scan_template_dirs category_name [] templates = Inr templates"
| "scan_template_dirs category_name ((dir_name, PlainFile) # rest) templates =
     scan_template_dirs category_name rest templates"
| "scan_template_dirs category_name ((dir_name, TemplateDir writable f) # rest) templates =
     (case read_summary category_name dir_name f of
        Inl e \<Rightarrow> Inl e
      | Inr None \<Rightarrow> scan_template_dirs category_name rest templates
      | Inr (Some s) \<Rightarrow> scan_template_dirs category_name rest (templates @ [s]))"

text \<open>The outer loop, with the category filter.\<close>

definition filtered_out :: "string option \<Rightarrow> string \<Rightarrow> bool" where
  "filtered_out category name =
     (case category of None \<Rightarrow> False | Some c \<Rightarrow> c \<noteq> [] \<and> name \<noteq> c)"

fun scan_categories ::
  "string option \<Rightarrow> (string \<times> base_entry) list \<Rightarrow> summary list \<Rightarrow> py_error + summary list" where
  "scan_categories category [] templates = Inr templates"
| "scan_categories category ((name, OtherFile) # rest) templates =
     scan_categories category rest templates"
| "scan_categories category ((name, CategoryDir dirs) # rest) templates =
     (if filtered_out category name then scan_categories category rest templates
      else case scan_template_dirs name dirs templates of
             Inl e \<Rightarrow> Inl e
           | Inr templates' \<Rightarrow> scan_categories category rest templates')"

definition discover_templates :: "string option \<Rightarrow> template_base \<Rightarrow> py_error + summary list" where
  "discover_templates category base =
     (case base of None \<Rightarrow> Inr [] | Some entries \<Rightarrow> scan_categories category entries [])"

text \<open>What is at \<^verbatim>\<open>TEMPLATE_BASE_DIR / category / dir / "template.json"\<close>.\<close>

definition file_at :: "template_base \<Rightarrow> string \<times> string \<Rightarrow> template_file" where
  "file_at base path =
     (case base of None \<Rightarrow> Missing
      | Some entries \<Rightarrow>
          (case map_of entries (fst path) of
             Some (CategoryDir dirs) \<Rightarrow>
               (case map_of dirs (snd path) of Some (TemplateDir writable f) \<Rightarrow> f | _ \<Rightarrow> Missing)
           | _ \<Rightarrow> Missing))"

text \<open>
  \<^verbatim>\<open>_load_template\<close>: the first summary with the id decides; a file that cannot be opened
  or parsed gives \<^verbatim>\<open>None\<close>. The cases \<open>InvalidUtf8\<close> and \<open>NonObject\<close> cannot be reached,
  the scan before it having raised on that file.
\<close>

definition load_template :: "string \<Rightarrow> template_base \<Rightarrow> py_error + template option" where
  "load_template template_id base =
     (case discover_templates None base of
        Inl e \<Rightarrow> Inl e
      | Inr templates \<Rightarrow>
          (case find (\<lambda>t. summary_id t = template_id) templates of
             None \<Rightarrow> Inr None
           | Some t \<Rightarrow>
               (case file_at base (summary_path t) of
                  Document d \<Rightarrow> Inr (Some d)
                | InvalidUtf8 \<Rightarrow> Inl UnicodeDecodeError
                | NonObject \<Rightarrow> Inl AttributeError
                | _ \<Rightarrow> Inr None)))"

text \<open>
  \<^verbatim>\<open>_save_template\<close>, first statement: \<^verbatim>\<open>template_dir.mkdir(parents=True, exist_ok=True)\<close>
  creates the directories that are missing and raises when a file is in the way of one
  of them; the call is outside the \<^verbatim>\<open>try\<close>. A new directory is listed last, and a file
  can be created in it.
\<close>

definition make_dirs ::
  "string \<Rightarrow> string \<Rightarrow> template_base \<Rightarrow> py_error + (string \<times> base_entry) list" where
  "make_dirs category template_id base =
     (let entries = (case base of None \<Rightarrow> [] | Some es \<Rightarrow> es)
      in case map_of entries category of
           None \<Rightarrow>
             Inr (entries @ [(category, CategoryDir [(template_id, TemplateDir True Missing)])])
         | Some OtherFile \<Rightarrow> Inl OSError
         | Some (CategoryDir dirs) \<Rightarrow>
             (case map_of dirs template_id of
                None \<Rightarrow>
                  Inr (dict_set category
                         (CategoryDir (dirs @ [(template_id, TemplateDir True Missing)])) entries)
              | Some PlainFile \<Rightarrow> Inl OSError
              | Some (TemplateDir writable f) \<Rightarrow> Inr entries))"

text \<open>
  The \<^verbatim>\<open>try\<close> block of \<^verbatim>\<open>_save_template\<close>: \<^verbatim>\<open>open(template_file, 'w')\<close> and
  \<^verbatim>\<open>json.dump\<close>, with \<^verbatim>\<open>True\<close> for the answer; the \<^verbatim>\<open>IOError\<close> of \<^verbatim>\<open>open\<close> gives \<^verbatim>\<open>False\<close>
  and leaves the file as it is.
\<close>

definition opens_for_writing :: "string \<Rightarrow> string \<Rightarrow> (string \<times> base_entry) list \<Rightarrow> bool" where
  "opens_for_writing category template_id entries =
     (case map_of entries category of
        Some (CategoryDir dirs) \<Rightarrow>
          (case map_of dirs template_id of
             Some (TemplateDir writable f) \<Rightarrow> writable
           | _ \<Rightarrow> False)
      | _ \<Rightarrow> False)"

definition write_json ::
  "template \<Rightarrow> string \<Rightarrow> string \<Rightarrow> (string \<times> base_entry) list \<Rightarrow>
   bool \<times> (string \<times> base_entry) list" where
  "write_json d category template_id entries =
     (if opens_for_writing category template_id entries then
        (True,
         case map_of entries category of
           Some (CategoryDir dirs) \<Rightarrow>
             dict_set category
               (CategoryDir (dict_set template_id (TemplateDir True (Document d)) dirs)) entries
         | _ \<Rightarrow> entries)
      else (False, entries))"

definition save_template ::
  "template \<Rightarrow> string \<Rightarrow> string \<Rightarrow> template_base \<Rightarrow> py_error + bool \<times> template_base" where
  "save_template d template_id category base =
     (case make_dirs category template_id base of
        Inl e \<Rightarrow> Inl e
      | Inr entries \<Rightarrow>
          (let (ok, entries') = write_json d category template_id entries
           in Inr (ok, Some entries')))"

subsection \<open>The board backend\<close>

text \<open>
  \<^verbatim>\<open>_api_request\<close> sends one HTTP request and returns the JSON of the answer, or a
  dictionary with the key \<^verbatim>\<open>error\<close> for a status of 400 or more, a timeout, a failed
  connection or any other exception. The backend is outside the repository: it is a
  parameter, a function from the calls made so far and the request to the answer. An
  answer is an error dictionary, another JSON object or a JSON array; of an object the
  model keeps the keys that the tools read. Timestamps and the constant keys of a request
  body (\<^verbatim>\<open>schema\<close>, \<^verbatim>\<open>createAt\<close>, \<^verbatim>\<open>updateAt\<close>, the empty settings of a view) are left
  out.
\<close>

record board_data =
  data_teamId :: string
  data_type :: string
  data_title :: string
  data_description :: string
  data_icon :: string
  data_showDescription :: bool
  data_cardProperties :: "property_definition list"

record card_data =
  card_title :: "string option"
  card_icon :: "string option"
  card_properties :: "(string \<times> string) list"

datatype block_fields =
  NoFields
| CheckboxValue bool
| ViewFields (viewType: string) (visiblePropertyIds: "string list")

record api_block =
  blk_id :: string
  blk_type :: string
  blk_parentId :: string
  blk_boardId :: string
  blk_title :: string
  blk_fields :: block_fields

datatype body =
  NoBody
| BoardData board_data
| CardData card_data
| Blocks "api_block list"
| UpdatedFields "string list"
| UpdatedProperties "(string \<times> string) list"

record request =
  req_method :: string
  req_endpoint :: string
  req_data :: body
  req_params :: "(string \<times> string) list"

record json_object =
  obj_id :: "string option"
  obj_title :: "string option"
  obj_icon :: "string option"
  obj_properties :: "(string \<times> string) list option"
  obj_contentOrder :: "string list option"

datatype response = ErrorDict string | Dict json_object | JsonList "json_object list"

type_synonym call = "request \<times> response"

type_synonym api = "call list \<Rightarrow> request \<Rightarrow> response"

definition api_request :: "api \<Rightarrow> request \<Rightarrow> call list \<Rightarrow> response \<times> call list" where
  "api_request backend req cs = (let r = backend cs req in (r, cs @ [(req, r)]))"

text \<open>\<^verbatim>\<open>isinstance(r, dict) and "error" in r\<close>.\<close>

fun is_error :: "response \<Rightarrow> bool" where
  "is_error (ErrorDict e) = True"
| "is_error r = False"

text \<open>
  The clock, \<^verbatim>\<open>_generate_block_id\<close> (the n-th id generated in a run is \<open>block_ids n\<close>)
  and \<^verbatim>\<open>str.title\<close> on the strings that are not ASCII.
\<close>

record env =
  today :: string
  now_iso :: string
  block_ids :: "nat \<Rightarrow> string"
  unicode_title :: "string \<Rightarrow> string"

subsection \<open>Instantiating a template\<close>

text \<open>
  The default icons, as the source file has them: the literal of the card icon is the
  four characters U+00F0, U+0178, U+201C, U+2039 and the literal of the board icon the
  four characters U+00F0, U+0178, U+00A5, U+201C, here in UTF-8.
\<close>

definition clipboard_icon :: string where
  "clipboard_icon =
     map char_of [0xC3, 0xB0, 0xC5, 0xB8, 0xE2, 0x80, 0x9C, 0xE2, 0x80, 0xB9 :: nat]"

definition bacon_icon :: string where
  "bacon_icon = map char_of [0xC3, 0xB0, 0xC5, 0xB8, 0xC2, 0xA5, 0xE2, 0x80, 0x9C :: nat]"

text \<open>The two lookup tables built from \<^verbatim>\<open>board.cardProperties\<close>.\<close>

fun option_dict :: "select_option list \<Rightarrow> (string \<times> string) list \<Rightarrow> (string \<times> string) list" where
  "option_dict [] d = d"
| "option_dict (opt # opts) d =
     option_dict opts (dict_set (get_or (option_value opt) []) (get_or (option_id opt) []) d)"

fun build_maps ::
  "property_definition list \<Rightarrow>
   (string \<times> string) list \<times> (string \<times> (string \<times> string) list) list \<Rightarrow>
   (string \<times> string) list \<times> (string \<times> (string \<times> string) list) list" where
  "build_maps [] maps = maps"
| "build_maps (prop # props) (property_map, option_map) =
     (let prop_name = get_or (property_name prop) [];
          prop_id = get_or (property_id prop) [];
          options = get_or (property_options prop) []
      in build_maps props
           (dict_set prop_name prop_id property_map,
            if options \<noteq> [] then dict_set prop_name (option_dict options []) option_map
            else option_map))"

text \<open>The \<^verbatim>\<open>card_properties\<close> of one task: the status, then the phase.\<close>

definition status_properties ::
  "env \<Rightarrow> (string \<times> string) list \<Rightarrow> (string \<times> (string \<times> string) list) list \<Rightarrow> string \<Rightarrow>
   (string \<times> string) list \<Rightarrow> (string \<times> string) list" where
  "status_properties e property_map option_map status props =
     (case (map_of property_map ''Status'', map_of option_map ''Status'') of
        (Some status_property, Some status_options) \<Rightarrow>
          (let status_option_id =
                 dict_get status_options
                   (py_title (unicode_title e) (str_replace status ''-'' '' '')) []
           in if status_option_id \<noteq> [] then dict_set status_property status_option_id props
              else props)
      | _ \<Rightarrow> props)"

definition phase_properties ::
  "(string \<times> string) list \<Rightarrow> (string \<times> (string \<times> string) list) list \<Rightarrow> int \<Rightarrow>
   (string \<times> string) list \<Rightarrow> (string \<times> string) list" where
  "phase_properties property_map option_map phase_num props =
     (case (map_of property_map ''Phase'', map_of option_map ''Phase'') of
        (Some phase_property, Some phase_options) \<Rightarrow>
          (let phase_option_id = dict_get phase_options (''Phase '' @ str_int phase_num) []
           in if phase_option_id \<noteq> [] then dict_set phase_property phase_option_id props
              else props)
      | _ \<Rightarrow> props)"

definition task_card_properties ::
  "env \<Rightarrow> (string \<times> string) list \<Rightarrow> (string \<times> (string \<times> string) list) list \<Rightarrow> int \<Rightarrow> task \<Rightarrow>
   (string \<times> string) list" where
  "task_card_properties e property_map option_map phase_num t =
     phase_properties property_map option_map phase_num
       (status_properties e property_map option_map (get_or (task_status t) ''not-started'') [])"

definition substituted_title :: "(string \<times> string) list \<Rightarrow> task \<Rightarrow> string" where
  "substituted_title variables t =
     substitute_variables (get_or (task_title t) ''Untitled Task'') variables"

definition task_card_data ::
  "env \<Rightarrow> (string \<times> string) list \<Rightarrow> (string \<times> string) list \<Rightarrow>
   (string \<times> (string \<times> string) list) list \<Rightarrow> int \<Rightarrow> task \<Rightarrow> card_data" where
  "task_card_data e variables property_map option_map phase_num t =
     \<lparr>card_title = Some (substituted_title variables t),
      card_icon = Some (get_or (task_icon t) clipboard_icon),
      card_properties = task_card_properties e property_map option_map phase_num t\<rparr>"

definition create_card_request :: "string \<Rightarrow> card_data \<Rightarrow> request" where
  "create_card_request board_id d =
     \<lparr>req_method = ''POST'', req_endpoint = ''/boards/'' @ board_id @ ''/cards'',
      req_data = CardData d, req_params = [(''disable_notify'', ''true'')]\<rparr>"

definition post_blocks_request :: "string \<Rightarrow> api_block list \<Rightarrow> request" where
  "post_blocks_request board_id blocks =
     \<lparr>req_method = ''POST'', req_endpoint = ''/boards/'' @ board_id @ ''/blocks'',
      req_data = Blocks blocks, req_params = []\<rparr>"

definition patch_order_request :: "string \<Rightarrow> string \<Rightarrow> string list \<Rightarrow> request" where
  "patch_order_request board_id card_id content_order =
     \<lparr>req_method = ''PATCH'', req_endpoint = ''/boards/'' @ board_id @ ''/blocks/'' @ card_id,
      req_data = UpdatedFields content_order, req_params = []\<rparr>"

definition get_card_blocks_request :: "string \<Rightarrow> request" where
  "get_card_blocks_request board_id =
     \<lparr>req_method = ''GET'', req_endpoint = ''/boards/'' @ board_id @ ''/blocks?type=card'',
      req_data = NoBody, req_params = []\<rparr>"

text \<open>The state of the card loop.\<close>

record run =
  calls :: "call list"
  cards_created :: nat
  errors :: "string list"
  generated :: nat

definition error_message :: "string \<Rightarrow> string \<Rightarrow> string" where
  "error_message the_title e = ''Task '' @ [CHR 0x27] @ the_title @ [CHR 0x27] @ '': '' @ e"

text \<open>The checklist of a task: one checkbox block for each entry, then the content order.\<close>

definition checkbox_block :: "string \<Rightarrow> string \<Rightarrow> (string \<times> string) list \<Rightarrow> string \<times> checklist_entry \<Rightarrow> api_block" where
  "checkbox_block board_id card_id variables entry =
     (let item = snd entry;
          the_title = (case item of ItemStr s \<Rightarrow> s | ItemDict t c \<Rightarrow> get_or t []);
          item_checked = (case item of ItemStr s \<Rightarrow> False | ItemDict t c \<Rightarrow> get_or c False)
      in \<lparr>blk_id = fst entry, blk_type = ''checkbox'', blk_parentId = card_id,
          blk_boardId = board_id, blk_title = substitute_variables the_title variables,
          blk_fields = CheckboxValue item_checked\<rparr>)"

definition fresh_ids :: "env \<Rightarrow> nat \<Rightarrow> nat \<Rightarrow> string list" where
  "fresh_ids e start n = map (block_ids e) [start ..< start + n]"

definition add_checklist ::
  "api \<Rightarrow> env \<Rightarrow> string \<Rightarrow> string \<Rightarrow> (string \<times> string) list \<Rightarrow> checklist_entry list \<Rightarrow>
   run \<Rightarrow> run" where
  "add_checklist backend e board_id card_id variables checklist st =
     (if checklist \<noteq> [] \<and> card_id \<noteq> [] then
        (let content_order = fresh_ids e (generated st) (length checklist);
             new_blocks = map (checkbox_block board_id card_id variables)
                              (zip content_order checklist);
             (r1, cs1) = api_request backend (post_blocks_request board_id new_blocks) (calls st);
             (r2, cs2) = api_request backend
                           (patch_order_request board_id card_id content_order) cs1
         in st\<lparr>calls := cs2, generated := generated st + length checklist\<rparr>)
      else st)"

text \<open>The content blocks of a task, appended to the content order read back from the board.\<close>

definition text_or_divider :: "string \<Rightarrow> string \<Rightarrow> (string \<times> string) list \<Rightarrow> string \<times> content_block \<Rightarrow> api_block" where
  "text_or_divider board_id card_id variables entry =
     (if get_or (block_type (snd entry)) ''text'' = ''divider''
      then \<lparr>blk_id = fst entry, blk_type = ''divider'', blk_parentId = card_id,
            blk_boardId = board_id, blk_title = [], blk_fields = NoFields\<rparr>
      else \<lparr>blk_id = fst entry, blk_type = ''text'', blk_parentId = card_id,
            blk_boardId = board_id,
            blk_title = substitute_variables (get_or (block_content (snd entry)) []) variables,
            blk_fields = NoFields\<rparr>)"

definition append_content_order ::
  "api \<Rightarrow> string \<Rightarrow> string \<Rightarrow> string list \<Rightarrow> response \<Rightarrow> call list \<Rightarrow> call list" where
  "append_content_order backend board_id card_id additions cards_result cs =
     (case cards_result of
        JsonList cards \<Rightarrow>
          (case find (\<lambda>c. obj_id c = Some card_id) cards of
             Some c \<Rightarrow>
               snd (api_request backend
                      (patch_order_request board_id card_id
                         (get_or (obj_contentOrder c) [] @ additions)) cs)
           | None \<Rightarrow> cs)
      | _ \<Rightarrow> cs)"

definition add_content_blocks ::
  "api \<Rightarrow> env \<Rightarrow> string \<Rightarrow> string \<Rightarrow> (string \<times> string) list \<Rightarrow> content_block list \<Rightarrow>
   run \<Rightarrow> run" where
  "add_content_blocks backend e board_id card_id variables content_blocks st =
     (if content_blocks \<noteq> [] \<and> card_id \<noteq> [] then
        (let content_order_additions = fresh_ids e (generated st) (length content_blocks);
             new_blocks = map (text_or_divider board_id card_id variables)
                              (zip content_order_additions content_blocks);
             (r1, cs1) = api_request backend (post_blocks_request board_id new_blocks) (calls st);
             (cards_result, cs2) = api_request backend (get_card_blocks_request board_id) cs1
         in st\<lparr>calls := append_content_order backend board_id card_id
                            content_order_additions cards_result cs2,
               generated := generated st + length content_blocks\<rparr>)
      else st)"

text \<open>
  The body of the loop for one task. An error answer adds one message and goes on to the
  next task (\<^verbatim>\<open>continue\<close>). \<^verbatim>\<open>card_result.get\<close> raises on an answer that is a JSON array.
\<close>

definition create_task_card ::
  "api \<Rightarrow> env \<Rightarrow> string \<Rightarrow> (string \<times> string) list \<Rightarrow> (string \<times> string) list \<Rightarrow>
   (string \<times> (string \<times> string) list) list \<Rightarrow> int \<Rightarrow> task \<Rightarrow> run \<Rightarrow> py_error \<times> run + run" where
  "create_task_card backend e board_id variables property_map option_map phase_num t st =
     (let d = task_card_data e variables property_map option_map phase_num t;
          (card_result, cs) = api_request backend (create_card_request board_id d) (calls st)
      in case card_result of
           ErrorDict err \<Rightarrow>
             Inr (st\<lparr>calls := cs,
                     errors := errors st @ [error_message (substituted_title variables t) err]\<rparr>)
         | JsonList l \<Rightarrow> Inl (AttributeError, st\<lparr>calls := cs\<rparr>)
         | Dict created \<Rightarrow>
             (let card_id = get_or (obj_id created) [];
                  st1 = st\<lparr>calls := cs, cards_created := cards_created st + 1\<rparr>;
                  st2 = add_checklist backend e board_id card_id variables
                          (get_or (task_checklist t) []) st1
              in Inr (add_content_blocks backend e board_id card_id variables
                        (get_or (task_content_blocks t) []) st2)))"

fun create_phase_cards ::
  "api \<Rightarrow> env \<Rightarrow> string \<Rightarrow> (string \<times> string) list \<Rightarrow> (string \<times> string) list \<Rightarrow>
   (string \<times> (string \<times> string) list) list \<Rightarrow> int \<Rightarrow> task list \<Rightarrow> run \<Rightarrow> py_error \<times> run + run" where
  "create_phase_cards backend e board_id variables property_map option_map phase_num [] st =
     Inr st"
| "create_phase_cards backend e board_id variables property_map option_map phase_num (t # ts) st =
     (case create_task_card backend e board_id variables property_map option_map phase_num t st of
        Inl raised \<Rightarrow> Inl raised
      | Inr st' \<Rightarrow>
          create_phase_cards backend e board_id variables property_map option_map phase_num ts st')"

fun create_cards ::
  "api \<Rightarrow> env \<Rightarrow> string \<Rightarrow> (string \<times> string) list \<Rightarrow> (string \<times> string) list \<Rightarrow>
   (string \<times> (string \<times> string) list) list \<Rightarrow> phase list \<Rightarrow> run \<Rightarrow> py_error \<times> run + run" where
  "create_cards backend e board_id variables property_map option_map [] st = Inr st"
| "create_cards backend e board_id variables property_map option_map (p # ps) st =
     (case create_phase_cards backend e board_id variables property_map option_map
             (get_or (phase_number p) 0) (get_or (phase_tasks p) []) st of
        Inl raised \<Rightarrow> Inl raised
      | Inr st' \<Rightarrow> create_cards backend e board_id variables property_map option_map ps st')"

text \<open>
  The tool \<^verbatim>\<open>focalboard_instantiate_template\<close>. Its answer is a markdown text; the model
  returns what the text is rendered from and shows. Of the errors list the text shows the
  length, the first five messages and the number of the others.
\<close>

record instantiate_params =
  param_template_id :: string
  param_project_name :: string
  param_team_id :: string
  param_variables :: "(string \<times> string) list option"

record creation_report =
  report_template_name :: string
  report_template_version :: string
  report_project :: string
  report_board_id :: string
  report_board_title :: string
  report_cards_created :: nat
  report_view_created :: bool
  report_errors_total :: nat
  report_errors_shown :: "string list"
  report_errors_more :: "nat option"

datatype instantiate_result =
  TemplateNotFound
| BoardCreationError string
| BoardCreated creation_report

record world =
  templates_dir :: template_base
  api_calls :: "call list"

definition empty_board_config :: board_config where
  "empty_board_config = \<lparr>config_title = None, config_description = None, config_icon = None,
     config_type = None, cardProperties = None\<rparr>"

definition instantiate_variables :: "env \<Rightarrow> instantiate_params \<Rightarrow> (string \<times> string) list" where
  "instantiate_variables e params =
     setdefault ''CURRENT_DATE'' (today e)
       (setdefault ''PROJECT_NAME'' (param_project_name params)
          (get_or (param_variables params) []))"

definition instantiate_board_title :: "board_config \<Rightarrow> (string \<times> string) list \<Rightarrow> string" where
  "instantiate_board_title board_config variables =
     substitute_variables (get_or (config_title board_config) ''${PROJECT_NAME} Board'') variables"

definition create_board_request ::
  "instantiate_params \<Rightarrow> board_config \<Rightarrow> (string \<times> string) list \<Rightarrow> request" where
  "create_board_request params board_config variables =
     \<lparr>req_method = ''POST'', req_endpoint = ''/boards'',
      req_data = BoardData
        \<lparr>data_teamId = param_team_id params,
         data_type = get_or (config_type board_config) ''P'',
         data_title = instantiate_board_title board_config variables,
         data_description =
           substitute_variables (get_or (config_description board_config) []) variables,
         data_icon = get_or (config_icon board_config) bacon_icon,
         data_showDescription = True,
         data_cardProperties = get_or (cardProperties board_config) []\<rparr>,
      req_params = []\<rparr>"

text \<open>Step 3: the default table view, posted whatever the schema holds.\<close>

definition default_view_block :: "string \<Rightarrow> string \<Rightarrow> (string \<times> string) list \<Rightarrow> api_block" where
  "default_view_block view_id board_id property_map =
     (let status_prop_id = dict_get property_map ''Status'' []
      in \<lparr>blk_id = view_id, blk_type = ''view'', blk_parentId = board_id,
          blk_boardId = board_id, blk_title = ''Task Overview'',
          blk_fields = ViewFields ''table''
                         (if status_prop_id \<noteq> [] then [status_prop_id] else [])\<rparr>)"

text \<open>Step 4: the instance record. \<^verbatim>\<open>template_instances["active"]\<close> raises without the key.\<close>

definition track_instance ::
  "env \<Rightarrow> instantiate_params \<Rightarrow> string \<Rightarrow> template \<Rightarrow> py_error + template" where
  "track_instance e params board_id t =
     (let m = get_or (meta t) empty_meta;
          template_instances = get_or (instances t) \<lparr>active = Some [], archived = Some []\<rparr>
      in case active template_instances of
           None \<Rightarrow> Inl KeyError
         | Some records \<Rightarrow>
             Inr (t\<lparr>instances := Some (template_instances\<lparr>active := Some (records @
               [\<lparr>instance_board_id = board_id,
                 instance_project_name = param_project_name params,
                 instance_created = now_iso e,
                 template_version = get_or (meta_version m) ''1.0.0'',
                 current_version = get_or (meta_version m) ''1.0.0'',
                 instance_upgrade_status = ''current''\<rparr>])\<rparr>)\<rparr>))"

text \<open>
  "Find the category and save": the document is saved in the category of the first summary
  with the id, when there is one; the answer of \<^verbatim>\<open>_save_template\<close> is not read.
\<close>

definition save_if_listed :: "template \<Rightarrow> string \<Rightarrow> template_base \<Rightarrow> py_error + template_base" where
  "save_if_listed t template_id base =
     (case discover_templates None base of
        Inl err \<Rightarrow> Inl err
      | Inr templates \<Rightarrow>
          (case find (\<lambda>s. summary_id s = template_id) templates of
             None \<Rightarrow> Inr base
           | Some template_info \<Rightarrow>
               (case save_template t template_id (summary_category template_info) base of
                  Inl err \<Rightarrow> Inl err
                | Inr (ok, base') \<Rightarrow> Inr base')))"

definition render_report ::
  "instantiate_params \<Rightarrow> template \<Rightarrow> string \<Rightarrow> string \<Rightarrow> bool \<Rightarrow> run \<Rightarrow> creation_report" where
  "render_report params t board_id board_title view_created st =
     (let m = get_or (meta t) empty_meta
      in \<lparr>report_template_name = get_or (meta_name m) ''Unknown'',
          report_template_version = get_or (meta_version m) ''0.0.0'',
          report_project = param_project_name params,
          report_board_id = board_id,
          report_board_title = board_title,
          report_cards_created = cards_created st,
          report_view_created = view_created,
          report_errors_total = length (errors st),
          report_errors_shown = take 5 (errors st),
          report_errors_more =
            (if length (errors st) > 5 then Some (length (errors st) - 5) else None)\<rparr>)"

definition finish_instantiate ::
  "api \<Rightarrow> env \<Rightarrow> instantiate_params \<Rightarrow> template \<Rightarrow> string \<Rightarrow> string \<Rightarrow>
   (string \<times> string) list \<Rightarrow> template_base \<Rightarrow> run \<Rightarrow> (py_error + instantiate_result) \<times> world" where
  "finish_instantiate backend e params t board_id board_title property_map base st =
     (let view_id = block_ids e (generated st);
          (view_result, cs) =
            api_request backend
              (post_blocks_request board_id [default_view_block view_id board_id property_map])
              (calls st);
          view_created = (\<not> is_error view_result)
      in case track_instance e params board_id t of
           Inl err \<Rightarrow> (Inl err, \<lparr>templates_dir = base, api_calls = cs\<rparr>)
         | Inr t' \<Rightarrow>
             (case save_if_listed t' (param_template_id params) base of
                Inl err \<Rightarrow> (Inl err, \<lparr>templates_dir = base, api_calls = cs\<rparr>)
              | Inr base' \<Rightarrow>
                  (Inr (BoardCreated
                          (render_report params t board_id board_title view_created st)),
                   \<lparr>templates_dir = base', api_calls = cs\<rparr>)))"

definition instantiate_loaded ::
  "api \<Rightarrow> env \<Rightarrow> instantiate_params \<Rightarrow> template \<Rightarrow> world \<Rightarrow>
   (py_error + instantiate_result) \<times> world" where
  "instantiate_loaded backend e params t w =
     (let variables = instantiate_variables e params;
          board_config = get_or (board t) empty_board_config;
          board_title = instantiate_board_title board_config variables;
          (board_result, cs) =
            api_request backend (create_board_request params board_config variables)
              (api_calls w)
      in case board_result of
           ErrorDict err \<Rightarrow> (Inr (BoardCreationError err), w\<lparr>api_calls := cs\<rparr>)
         | JsonList l \<Rightarrow> (Inl AttributeError, w\<lparr>api_calls := cs\<rparr>)
         | Dict created \<Rightarrow>
             (let board_id = get_or (obj_id created) ''unknown'';
                  (property_map, option_map) =
                    build_maps (get_or (cardProperties board_config) []) ([], [])
              in case create_cards backend e board_id variables property_map option_map
                        (get_or (phases t) [])
                        \<lparr>calls = cs, cards_created = 0, errors = [], generated = 0\<rparr> of
                   Inl (err, st) \<Rightarrow> (Inl err, w\<lparr>api_calls := calls st\<rparr>)
                 | Inr st \<Rightarrow>
                     finish_instantiate backend e params t board_id board_title property_map
                       (templates_dir w) st))"

definition focalboard_instantiate_template ::
  "api \<Rightarrow> env \<Rightarrow> instantiate_params \<Rightarrow> world \<Rightarrow> (py_error + instantiate_result) \<times> world" where
  "focalboard_instantiate_template backend e params w =
     (case load_template (param_template_id params) (templates_dir w) of
        Inl err \<Rightarrow> (Inl err, w)
      | Inr None \<Rightarrow> (Inr TemplateNotFound, w)
      | Inr (Some t) \<Rightarrow>
          (if t = empty_document then (Inr TemplateNotFound, w)
           else instantiate_loaded backend e params t w))"

subsection \<open>Synchronising a board with its template\<close>

text \<open>
  A Python \<^verbatim>\<open>set\<close> is a list without duplicates; the order in which Python iterates over
  a set is not fixed, and nothing proved below depends on the order chosen here.
  \<^verbatim>\<open>sorted\<close> raises \<^verbatim>\<open>TypeError\<close> on a set that holds \<^verbatim>\<open>None\<close> beside a string.
\<close>

record template_task =
  entry_id :: "string option"
  entry_title :: "string option"
  entry_phase :: "int option"
  entry_icon :: "string option"
  checklist_count :: nat

record board_card =
  shown_id :: "string option"
  shown_title :: "string option"
  shown_icon :: "string option"

definition phase_entries :: "phase \<Rightarrow> template_task list" where
  "phase_entries p =
     map (\<lambda>t. \<lparr>entry_id = task_id t, entry_title = task_title t, entry_phase = phase_number p,
               entry_icon = task_icon t,
               checklist_count = length (get_or (task_checklist t) [])\<rparr>)
         (get_or (phase_tasks p) [])"

definition template_tasks_of :: "template \<Rightarrow> template_task list" where
  "template_tasks_of t = concat (map phase_entries (get_or (phases t) []))"

definition board_cards_of :: "json_object list \<Rightarrow> board_card list" where
  "board_cards_of cards =
     map (\<lambda>c. \<lparr>shown_id = obj_id c, shown_title = obj_title c, shown_icon = obj_icon c\<rparr>) cards"

definition template_titles :: "template_task list \<Rightarrow> string option list" where
  "template_titles template_tasks = remdups (map entry_title template_tasks)"

definition board_titles :: "board_card list \<Rightarrow> string option list" where
  "board_titles board_cards = remdups (map shown_title board_cards)"

definition set_minus :: "'a list \<Rightarrow> 'a list \<Rightarrow> 'a list" where
  "set_minus xs ys = filter (\<lambda>x. x \<notin> set ys) xs"

definition missing_from_board :: "template_task list \<Rightarrow> board_card list \<Rightarrow> string option list" where
  "missing_from_board template_tasks board_cards =
     set_minus (template_titles template_tasks) (board_titles board_cards)"

definition extra_in_board :: "template_task list \<Rightarrow> board_card list \<Rightarrow> string option list" where
  "extra_in_board template_tasks board_cards =
     set_minus (board_titles board_cards) (template_titles template_tasks)"

definition py_sorted :: "string option list \<Rightarrow> py_error + string option list" where
  "py_sorted xs =
     (if None \<in> set xs then (if \<forall>x \<in> set xs. x = None then Inr xs else Inl TypeError)
      else Inr (map Some (sort [s. Some s \<leftarrow> xs])))"

record sync_params =
  sync_board_id :: string
  sync_template_id :: string
  sync_direction :: string
  sync_dry_run :: bool

datatype sync_action =
  NoAction
| WouldCreateCards nat
| CreatedCards nat
| WouldPropose nat
| Proposed "(string \<times> string option) list"

record sync_report =
  missing_total :: nat
  missing_shown :: "string option list"
  extra_total :: nat
  extra_shown :: "string option list"
  action_taken :: sync_action
  template_task_count :: nat
  board_card_count :: nat

datatype sync_result = SyncTemplateNotFound | SyncError string | SyncReport sync_report

definition get_board_request :: "string \<Rightarrow> request" where
  "get_board_request board_id =
     \<lparr>req_method = ''GET'', req_endpoint = ''/boards/'' @ board_id,
      req_data = NoBody, req_params = []\<rparr>"

definition get_cards_request :: "string \<Rightarrow> request" where
  "get_cards_request board_id =
     \<lparr>req_method = ''GET'', req_endpoint = ''/boards/'' @ board_id @ ''/cards'',
      req_data = NoBody, req_params = []\<rparr>"

text \<open>The "Differences Detected" part of the report: the first ten titles of each set.\<close>

definition listed :: "string option list \<Rightarrow> py_error + string option list" where
  "listed titles =
     (if titles = [] then Inr []
      else case py_sorted titles of Inl err \<Rightarrow> Inl err | Inr sorted_titles \<Rightarrow> Inr (take 10 sorted_titles))"

text \<open>
  Direction \<^verbatim>\<open>template_to_board\<close>: a card with the title and the icon for every template
  task whose title is missing.
\<close>

fun create_missing_cards ::
  "api \<Rightarrow> string \<Rightarrow> string option list \<Rightarrow> template_task list \<Rightarrow> nat \<times> call list \<Rightarrow>
   nat \<times> call list" where
  "create_missing_cards backend board_id missing [] acc = acc"
| "create_missing_cards backend board_id missing (entry # entries) (created, cs) =
     (if entry_title entry \<in> set missing then
        (let (result, cs') =
               api_request backend
                 (create_card_request board_id
                    \<lparr>card_title = entry_title entry, card_icon = entry_icon entry,
                     card_properties = []\<rparr>) cs
         in create_missing_cards backend board_id missing entries
              (if is_error result then created else created + 1, cs'))
      else create_missing_cards backend board_id missing entries (created, cs))"

text \<open>
  Direction \<^verbatim>\<open>board_to_template\<close>: a proposal for every extra title, appended to
  \<^verbatim>\<open>feedback["pending_proposals"]\<close>, which raises without the key.
\<close>

definition new_proposal :: "env \<Rightarrow> string \<Rightarrow> nat \<Rightarrow> string option \<Rightarrow> proposal" where
  "new_proposal e board_id n the_title =
     \<lparr>proposal_id = ''FP-'' @ today e @ ''-'' @ take 6 (block_ids e n),
      proposal_created = now_iso e,
      proposal_type = ''add_task'',
      target_phase = 0,
      change_title = the_title,
      rationale = ''Task discovered in board '' @ board_id,
      source_instances = [(board_id, ''Unknown'')],
      votes_approve = [],
      votes_reject = [],
      proposal_status = ''pending''\<rparr>"

fun append_proposals ::
  "env \<Rightarrow> string \<Rightarrow> nat \<Rightarrow> string option list \<Rightarrow> feedback_section \<Rightarrow>
   py_error + feedback_section" where
  "append_proposals e board_id n [] fb = Inr fb"
| "append_proposals e board_id n (the_title # titles) fb =
     (case pending_proposals fb of
        None \<Rightarrow> Inl KeyError
      | Some pending \<Rightarrow>
          append_proposals e board_id (n + 1) titles
            (fb\<lparr>pending_proposals := Some (pending @ [new_proposal e board_id n the_title])\<rparr>))"

definition empty_feedback :: feedback_section where
  "empty_feedback = \<lparr>pending_proposals = Some [], approved_proposals = Some [],
     rejected_proposals = Some []\<rparr>"

definition propose_extras ::
  "env \<Rightarrow> sync_params \<Rightarrow> template \<Rightarrow> string option list \<Rightarrow> template_base \<Rightarrow>
   py_error + sync_action \<times> template_base" where
  "propose_extras e params t extra base =
     (case append_proposals e (sync_board_id params) 0 extra (get_or (feedback t) empty_feedback) of
        Inl err \<Rightarrow> Inl err
      | Inr fb \<Rightarrow>
          (case save_if_listed (t\<lparr>feedback := Some fb\<rparr>) (sync_template_id params) base of
             Inl err \<Rightarrow> Inl err
           | Inr base' \<Rightarrow>
               Inr (Proposed (map (\<lambda>(n, the_title).
                                     (proposal_id (new_proposal e (sync_board_id params) n the_title),
                                      the_title))
                                (enumerate 0 extra)),
                    base')))"

definition sync_actions ::
  "api \<Rightarrow> env \<Rightarrow> sync_params \<Rightarrow> template \<Rightarrow> template_task list \<Rightarrow> string option list \<Rightarrow>
   string option list \<Rightarrow> world \<Rightarrow> py_error \<times> world + sync_action \<times> world" where
  "sync_actions backend e params t template_tasks missing extra w =
     (if sync_direction params = ''template_to_board'' \<and> missing \<noteq> [] then
        (if sync_dry_run params then Inr (WouldCreateCards (length missing), w)
         else (let (created, cs) =
                     create_missing_cards backend (sync_board_id params) missing template_tasks
                       (0, api_calls w)
               in Inr (CreatedCards created, w\<lparr>api_calls := cs\<rparr>)))
      else if sync_direction params = ''board_to_template'' \<and> extra \<noteq> [] then
        (if sync_dry_run params then Inr (WouldPropose (length extra), w)
         else case propose_extras e params t extra (templates_dir w) of
                Inl err \<Rightarrow> Inl (err, w)
              | Inr (done, base') \<Rightarrow> Inr (done, w\<lparr>templates_dir := base'\<rparr>))
      else Inr (NoAction, w))"

definition sync_loaded ::
  "api \<Rightarrow> env \<Rightarrow> sync_params \<Rightarrow> template \<Rightarrow> world \<Rightarrow> (py_error + sync_result) \<times> world" where
  "sync_loaded backend e params t w =
     (let (board_result, cs1) =
            api_request backend (get_board_request (sync_board_id params)) (api_calls w)
      in case board_result of
           ErrorDict err \<Rightarrow> (Inr (SyncError err), w\<lparr>api_calls := cs1\<rparr>)
         | _ \<Rightarrow>
            (let (cards_result, cs2) =
                   api_request backend (get_cards_request (sync_board_id params)) cs1;
                 w2 = w\<lparr>api_calls := cs2\<rparr>
             in case cards_result of
                  ErrorDict err \<Rightarrow> (Inr (SyncError err), w2)
                | _ \<Rightarrow>
                   (let cards = (case cards_result of JsonList l \<Rightarrow> l | _ \<Rightarrow> []);
                        template_tasks = template_tasks_of t;
                        board_cards = board_cards_of cards;
                        missing = missing_from_board template_tasks board_cards;
                        extra = extra_in_board template_tasks board_cards
                    in case listed missing of
                         Inl err \<Rightarrow> (Inl err, w2)
                       | Inr shown_missing \<Rightarrow>
                          (case listed extra of
                             Inl err \<Rightarrow> (Inl err, w2)
                           | Inr shown_extra \<Rightarrow>
                              (case sync_actions backend e params t template_tasks missing extra w2 of
                                 Inl (err, w3) \<Rightarrow> (Inl err, w3)
                               | Inr (done, w3) \<Rightarrow>
                                   (Inr (SyncReport
                                      \<lparr>missing_total = length missing,
                                       missing_shown = shown_missing,
                                       extra_total = length extra,
                                       extra_shown = shown_extra,
                                       action_taken = done,
                                       template_task_count = length template_tasks,
                                       board_card_count = length board_cards\<rparr>), w3))))))"

definition focalboard_sync_template ::
  "api \<Rightarrow> env \<Rightarrow> sync_params \<Rightarrow> world \<Rightarrow> (py_error + sync_result) \<times> world" where
  "focalboard_sync_template backend e params w =
     (case load_template (sync_template_id params) (templates_dir w) of
        Inl err \<Rightarrow> (Inl err, w)
      | Inr None \<Rightarrow> (Inr SyncTemplateNotFound, w)
      | Inr (Some t) \<Rightarrow>
          (if t = empty_document then (Inr SyncTemplateNotFound, w)
           else sync_loaded backend e params t w))"

subsection \<open>Template tracking of a board\<close>

definition TRACKING_PROP_TEMPLATE_ID :: string where
  "TRACKING_PROP_TEMPLATE_ID = ''bacon-template-id''"

definition TRACKING_PROP_TEMPLATE_VERSION :: string where
  "TRACKING_PROP_TEMPLATE_VERSION = ''bacon-template-version''"

definition TRACKING_PROP_UPGRADE_STATUS :: string where
  "TRACKING_PROP_UPGRADE_STATUS = ''bacon-upgrade-status''"

record tracking =
  tracked_board_id :: string
  tracked_board_title :: string
  tracked_template_id :: string
  tracked_template_version :: string
  tracked_upgrade_status :: string
  upgrade_available :: "string option"

datatype tracking_result = TrackingError string | Untracked | Tracked tracking

definition focalboard_get_board_tracking ::
  "api \<Rightarrow> string \<Rightarrow> world \<Rightarrow> (py_error + tracking_result) \<times> world" where
  "focalboard_get_board_tracking backend board_id w =
     (let (board_result, cs) = api_request backend (get_board_request board_id) (api_calls w);
          w' = w\<lparr>api_calls := cs\<rparr>
      in case board_result of
           ErrorDict err \<Rightarrow> (Inr (TrackingError err), w')
         | JsonList l \<Rightarrow> (Inl AttributeError, w')
         | Dict b \<Rightarrow>
            (let properties = get_or (obj_properties b) [];
                 template_id = dict_get properties TRACKING_PROP_TEMPLATE_ID [];
                 the_version = dict_get properties TRACKING_PROP_TEMPLATE_VERSION [];
                 upgrade_status = dict_get properties TRACKING_PROP_UPGRADE_STATUS []
             in if template_id = [] then (Inr Untracked, w')
                else case load_template template_id (templates_dir w) of
                       Inl err \<Rightarrow> (Inl err, w')
                     | Inr loaded \<Rightarrow>
                        (Inr (Tracked
                           \<lparr>tracked_board_id = board_id,
                            tracked_board_title = get_or (obj_title b) ''Unknown'',
                            tracked_template_id = template_id,
                            tracked_template_version = the_version,
                            tracked_upgrade_status = upgrade_status,
                            upgrade_available =
                              (case loaded of
                                 None \<Rightarrow> None
                               | Some t \<Rightarrow>
                                  (let current = get_or (meta_version (get_or (meta t) empty_meta)) ''0.0.0''
                                   in if t \<noteq> empty_document \<and> current \<noteq> the_version
                                      then Some current else None))\<rparr>), w')))"

record tracking_params =
  tracking_board_id :: string
  tracking_template_id :: string
  tracking_template_version :: string
  tracking_upgrade_status :: string

datatype set_tracking_result = SetTrackingError string | TrackingSet string string string string

definition set_tracking_request :: "tracking_params \<Rightarrow> request" where
  "set_tracking_request params =
     \<lparr>req_method = ''PATCH'', req_endpoint = ''/boards/'' @ tracking_board_id params,
      req_data = UpdatedProperties
        [(TRACKING_PROP_TEMPLATE_ID, tracking_template_id params),
         (TRACKING_PROP_TEMPLATE_VERSION, tracking_template_version params),
         (TRACKING_PROP_UPGRADE_STATUS, tracking_upgrade_status params)],
      req_params = []\<rparr>"

definition focalboard_set_board_tracking ::
  "api \<Rightarrow> tracking_params \<Rightarrow> world \<Rightarrow> set_tracking_result \<times> world" where
  "focalboard_set_board_tracking backend params w =
     (let (result, cs) = api_request backend (set_tracking_request params) (api_calls w);
          w' = w\<lparr>api_calls := cs\<rparr>
      in case result of
           ErrorDict err \<Rightarrow> (SetTrackingError err, w')
         | _ \<Rightarrow> (TrackingSet (tracking_board_id params) (tracking_template_id params)
                   (tracking_template_version params) (tracking_upgrade_status params), w'))"

subsection \<open>What a run leaves in the list of calls\<close>

text \<open>
  The card creations among the calls, with their answers, and the view blocks posted.
  \<open>template_card_data\<close> is the card data of every task of every phase, in template order;
  \<open>failure_messages\<close> are the entries that the card loop appends to \<^verbatim>\<open>errors\<close> for the
  creations that failed.
\<close>

definition card_posts :: "call list \<Rightarrow> (card_data \<times> response) list" where
  "card_posts cs =
     concat (map (\<lambda>(req, r). case req_data req of CardData d \<Rightarrow> [(d, r)] | _ \<Rightarrow> []) cs)"

definition view_posts :: "call list \<Rightarrow> api_block list" where
  "view_posts cs =
     concat (map (\<lambda>(req, r). case req_data req of
                               Blocks bs \<Rightarrow> filter (\<lambda>b. blk_type b = ''view'') bs
                             | _ \<Rightarrow> []) cs)"

definition template_card_data ::
  "env \<Rightarrow> (string \<times> string) list \<Rightarrow> (string \<times> string) list \<Rightarrow>
   (string \<times> (string \<times> string) list) list \<Rightarrow> phase list \<Rightarrow> card_data list" where
  "template_card_data e variables property_map option_map the_phases =
     concat (map (\<lambda>p. map (task_card_data e variables property_map option_map
                              (get_or (phase_number p) 0))
                          (get_or (phase_tasks p) []))
                 the_phases)"

definition failure_messages :: "(card_data \<times> response) list \<Rightarrow> string list" where
  "failure_messages posts =
     concat (map (\<lambda>(d, r). case r of ErrorDict err \<Rightarrow> [error_message (get_or (card_title d) []) err]
                                   | _ \<Rightarrow> []) posts)"

definition successes :: "(card_data \<times> response) list \<Rightarrow> nat" where
  "successes posts = length (filter (\<lambda>(d, r). \<not> is_error r) posts)"

text \<open>
  The first template that discovery lists under the id lies in the directory named by the
  id, as the layout \<^verbatim>\<open><root>/<category>/<templateId>/template.json\<close> has it.
\<close>

definition stored_under_its_id :: "string \<Rightarrow> template_base \<Rightarrow> bool" where
  "stored_under_its_id template_id base =
     (case discover_templates None base of
        Inl err \<Rightarrow> False
      | Inr templates \<Rightarrow>
          (case find (\<lambda>s. summary_id s = template_id) templates of
             None \<Rightarrow> False
           | Some template_info \<Rightarrow>
               summary_path template_info = (summary_category template_info, template_id)))"

subsection \<open>A backend that stores board properties\<close>

text \<open>
  The assumption of the tracking round trip: the backend accepts an update of the
  properties of the board, and a read of the board after it returns every property
  written.
\<close>

definition update_properties_request :: "string \<Rightarrow> (string \<times> string) list \<Rightarrow> request" where
  "update_properties_request board_id props =
     \<lparr>req_method = ''PATCH'', req_endpoint = ''/boards/'' @ board_id,
      req_data = UpdatedProperties props, req_params = []\<rparr>"

definition stores_properties_of :: "api \<Rightarrow> string \<Rightarrow> bool" where
  "stores_properties_of backend board_id =
     (\<forall>cs props.
        \<not> is_error (backend cs (update_properties_request board_id props))
        \<and> (\<exists>b. backend (cs @ [(update_properties_request board_id props,
                                backend cs (update_properties_request board_id props))])
                   (get_board_request board_id) = Dict b
               \<and> (\<forall>k v. map_of props k = Some v \<longrightarrow>
                      map_of (get_or (obj_properties b) []) k = Some v)))"

subsection \<open>What discovery lists\<close>

text \<open>
  The summaries of the documents of a category directory and of the whole base, in the
  order of the directories, and the exception of the first \<^verbatim>\<open>template.json\<close> that is not
  UTF-8 text or holds JSON that is not an object.
\<close>

definition dir_summaries :: "string \<Rightarrow> (string \<times> dir_entry) list \<Rightarrow> summary list" where
  "dir_summaries category_name dirs =
     concat (map (\<lambda>(dir_name, entry).
                    case entry of
                      TemplateDir writable (Document d) \<Rightarrow> [summarize category_name dir_name d]
                    | _ \<Rightarrow> []) dirs)"

definition base_summaries :: "(string \<times> base_entry) list \<Rightarrow> summary list" where
  "base_summaries entries =
     concat (map (\<lambda>(name, entry).
                    case entry of CategoryDir dirs \<Rightarrow> dir_summaries name dirs | _ \<Rightarrow> []) entries)"

fun first_raised :: "py_error option list \<Rightarrow> py_error option" where
  "first_raised [] = None"
| "first_raised (None # rest) = first_raised rest"
| "first_raised (Some err # rest) = Some err"

definition raised_by :: "dir_entry \<Rightarrow> py_error option" where
  "raised_by entry =
     (case entry of
        TemplateDir writable InvalidUtf8 \<Rightarrow> Some UnicodeDecodeError
      | TemplateDir writable NonObject \<Rightarrow> Some AttributeError
      | _ \<Rightarrow> None)"

definition dir_raises :: "(string \<times> dir_entry) list \<Rightarrow> py_error option" where
  "dir_raises dirs = first_raised (map (\<lambda>(dir_name, entry). raised_by entry) dirs)"

definition base_raises :: "(string \<times> base_entry) list \<Rightarrow> py_error option" where
  "base_raises entries =
     first_raised (map (\<lambda>(name, entry). case entry of CategoryDir dirs \<Rightarrow> dir_raises dirs
                                                     | _ \<Rightarrow> None) entries)"

text \<open>
  The category of the first template that discovery lists under an id: where
  "find the category and save" saves, in the directory named by the id.
\<close>

definition listed_category :: "string \<Rightarrow> template_base \<Rightarrow> string option" where
  "listed_category template_id base =
     (case discover_templates None base of
        Inl err \<Rightarrow> None
      | Inr templates \<Rightarrow>
          map_option summary_category (find (\<lambda>s. summary_id s = template_id) templates))"

text \<open>The \<^verbatim>\<open>template.json\<close> of a directory of one category.\<close>

definition file_in :: "(string \<times> dir_entry) list \<Rightarrow> string \<Rightarrow> template_file" where
  "file_in dirs name =
     (case map_of dirs name of Some (TemplateDir writable f) \<Rightarrow> f | _ \<Rightarrow> Missing)"

text \<open>
  The document of a template can be saved: the directories can be made and the file can
  be opened for writing.
\<close>

definition can_save :: "string \<Rightarrow> template_base \<Rightarrow> bool" where
  "can_save template_id base =
     (case listed_category template_id base of
        None \<Rightarrow> False
      | Some category \<Rightarrow>
          (case make_dirs category template_id base of
             Inl err \<Rightarrow> False
           | Inr entries \<Rightarrow> opens_for_writing category template_id entries))"


subsection \<open>Worked examples\<close>

definition plain_task :: "string \<Rightarrow> task" where
  "plain_task the_title =
     \<lparr>task_id = None, task_title = Some the_title, task_icon = None, task_status = None,
      task_checklist = None, task_content_blocks = None\<rparr>"

definition entry_titled :: "string \<Rightarrow> template_task" where
  "entry_titled the_title =
     \<lparr>entry_id = None, entry_title = Some the_title, entry_phase = Some 1, entry_icon = None,
      checklist_count = 0\<rparr>"

definition card_titled :: "string \<Rightarrow> board_card" where
  "card_titled the_title = \<lparr>shown_id = None, shown_title = Some the_title, shown_icon = None\<rparr>"

definition status_property :: property_definition where
  "status_property =
     \<lparr>property_id = Some ''prop-status'', property_name = Some ''Status'',
      property_options = Some
        [\<lparr>option_id = Some ''opt-not-started'', option_value = Some ''Not Started''\<rparr>,
         \<lparr>option_id = Some ''opt-completed'', option_value = Some ''Completed''\<rparr>]\<rparr>"


definition demo_template :: template where
  "demo_template =
     \<lparr>meta = Some (empty_meta\<lparr>meta_id := Some ''demo'', meta_name := Some ''Demo'',
                                meta_version := Some ''1.0.0''\<rparr>),
      board = Some (empty_board_config\<lparr>cardProperties := Some [status_property]\<rparr>),
      phases = Some [\<lparr>phase_number = Some 1, phase_tasks = Some [plain_task ''Query'']\<rparr>],
      feedback = None,
      instances = None,
      other_keys = False\<rparr>"

definition demo_base :: template_base where
  "demo_base =
     Some [(''framework'', CategoryDir [(''demo'', TemplateDir True (Document demo_template))])]"

text \<open>The same directory with a second template file that holds the JSON array \<^verbatim>\<open>[]\<close>.\<close>

definition array_file_base :: template_base where
  "array_file_base =
     Some [(''framework'', CategoryDir [(''demo'', TemplateDir True (Document demo_template)),
                                        (''notes'', TemplateDir True NonObject)])]"

definition array_file_world :: world where
  "array_file_world = \<lparr>templates_dir = array_file_base, api_calls = []\<rparr>"

definition empty_object :: json_object where
  "empty_object = \<lparr>obj_id = None, obj_title = None, obj_icon = None, obj_properties = None,
     obj_contentOrder = None\<rparr>"

text \<open>A backend that is down, one that accepts everything, and one that refuses every card.\<close>

definition failing_api :: api where
  "failing_api cs req = ErrorDict ''Request timed out''"

definition accepting_api :: api where
  "accepting_api cs req =
     (case req_data req of
        BoardData d \<Rightarrow> Dict (empty_object\<lparr>obj_id := Some ''board-1''\<rparr>)
      | CardData d \<Rightarrow> Dict (empty_object\<lparr>obj_id := Some ''card-1'', obj_title := card_title d\<rparr>)
      | _ \<Rightarrow> Dict empty_object)"



definition demo_env :: env where
  "demo_env = \<lparr>today = ''2025-01-15'', now_iso = ''2025-01-15T10:00:00'',
     block_ids = (\<lambda>n. ''blockid'' @ str_nat n), unicode_title = (\<lambda>s. s)\<rparr>"

definition demo_params :: instantiate_params where
  "demo_params = \<lparr>param_template_id = ''demo'', param_project_name = ''Acme'',
     param_team_id = ''0'', param_variables = None\<rparr>"

definition demo_world :: world where
  "demo_world = \<lparr>templates_dir = demo_base, api_calls = []\<rparr>"




definition bare_template :: template where
  "bare_template =
     \<lparr>meta = Some (empty_meta\<lparr>meta_id := Some ''bare''\<rparr>),
      board = None,
      phases = Some [\<lparr>phase_number = Some 1, phase_tasks = Some [plain_task ''Query'']\<rparr>],
      feedback = None,
      instances = None,
      other_keys = False\<rparr>"

definition bare_world :: world where
  "bare_world =
     \<lparr>templates_dir =
        Some [(''framework'',
               CategoryDir [(''bare'', TemplateDir True (Document bare_template))])],
      api_calls = []\<rparr>"

definition bare_params :: instantiate_params where
  "bare_params = \<lparr>param_template_id = ''bare'', param_project_name = ''Acme'',
     param_team_id = ''0'', param_variables = None\<rparr>"






text \<open>A backend that keeps, for every board, the properties of the last update.\<close>

definition property_store_api :: api where
  "property_store_api cs req =
     (if req_method req = ''PATCH'' then Dict empty_object
      else case find (\<lambda>c. req_method (fst c) = ''PATCH'' \<and> req_endpoint (fst c) = req_endpoint req)
                     (rev cs) of
             None \<Rightarrow> Dict empty_object
           | Some c \<Rightarrow>
               (case req_data (fst c) of
                  UpdatedProperties props \<Rightarrow> Dict (empty_object\<lparr>obj_properties := Some props\<rparr>)
                | _ \<Rightarrow> Dict empty_object))"

definition demo_tracking :: tracking_params where
  "demo_tracking = \<lparr>tracking_board_id = ''board-1'', tracking_template_id = ''demo'',
     tracking_template_version = ''1.0.0'', tracking_upgrade_status = ''current''\<rparr>"

section \<open>Properties\<close>

subsection \<open>Variable substitution\<close>

lemma str_replace_absent:
  "old \<noteq> [] \<Longrightarrow> \<not> contains s old \<Longrightarrow> str_replace s old new = s"
  by (induction s) auto

lemma take_of_longer: "n \<le> length xs \<Longrightarrow> take n (xs @ ys) = take n xs"
  by simp

text \<open>One pass replaces the leftmost occurrence and goes on behind it.\<close>

lemma str_replace_first:
  assumes "old \<noteq> []" and "\<not> contains (a @ butlast old) old"
  shows "str_replace (a @ old @ b) old new = a @ new @ str_replace b old new"
  using assms
proof (induction a)
  case Nil
  then show ?case by (cases old) auto
next
  case (Cons c a)
  let ?pre = "c # a @ butlast old"
  have split: "c # a @ old @ b = ?pre @ last old # b"
    using Cons.prems(1) by (simp add: append_butlast_last_id [symmetric] del: append_butlast_last_id)
  have len: "length old \<le> length ?pre"
    using Cons.prems(1) by (cases old) auto
  have "take (length old) (c # a @ old @ b) = take (length old) ?pre"
    using take_of_longer [OF len, of "last old # b"] split by (simp only:)
  moreover have "take (length old) ?pre \<noteq> old" and rest: "\<not> contains (a @ butlast old) old"
    using Cons.prems(2) by auto
  ultimately have "take (length old) (c # a @ old @ b) \<noteq> old" by simp
  then have "str_replace ((c # a) @ old @ b) old new = c # str_replace (a @ old @ b) old new"
    using Cons.prems(1) by simp
  with Cons.IH [OF Cons.prems(1) rest] show ?case by simp
qed

lemma token_not_empty: "token key \<noteq> []"
  by (simp add: token_def)

lemma substitute_loop_absent:
  "\<forall>(k, v) \<in> set variables. \<not> contains text (token k) \<Longrightarrow>
   substitute_loop text variables = text"
  by (induction variables) (auto simp: str_replace_absent token_not_empty)

text \<open>
  Claim C6, as the code has it. \<^verbatim>\<open>_substitute_variables\<close> makes one replacement pass for
  each entry of the map, in the order of the entries, each pass over the text that the
  passes before it produced: a pass replaces, from the left, every occurrence of the
  entry's token \<^verbatim>\<open>${key}\<close> by the entry's value. A text in which no token of a key occurs
  comes back unchanged, and nothing raises. The function is a pure function of the text
  and the map. The two cases of the specification hold.
\<close>

theorem substitute_variables_sequential:
  "substitute_variables text [] = text
   \<and> substitute_variables text ((key, val) # rest) =
       substitute_variables (str_replace text (token key) val) rest
   \<and> (\<not> contains (a @ butlast (token key)) (token key) \<longrightarrow>
        str_replace (a @ token key @ b) (token key) val = a @ val @ str_replace b (token key) val)
   \<and> ((\<forall>(k, v) \<in> set variables. \<not> contains text (token k)) \<longrightarrow>
        substitute_variables text variables = text)
   \<and> substitute_variables ''${P} board'' [(''P'', ''X'')] = ''X board''
   \<and> substitute_variables ''${MISSING}'' [] = ''${MISSING}''"
proof (intro conjI impI)
  show "substitute_variables text [] = text"
    by (simp add: substitute_variables_def)
  show "substitute_variables text ((key, val) # rest) =
        substitute_variables (str_replace text (token key) val) rest"
    by (simp add: substitute_variables_def)
  show "str_replace (a @ token key @ b) (token key) val = a @ val @ str_replace b (token key) val"
    if "\<not> contains (a @ butlast (token key)) (token key)"
    using str_replace_first [OF token_not_empty that] .
  show "substitute_variables text variables = text"
    if "\<forall>(k, v) \<in> set variables. \<not> contains text (token k)"
    using substitute_loop_absent [OF that] by (simp add: substitute_variables_def)
  show "substitute_variables ''${P} board'' [(''P'', ''X'')] = ''X board''"
    by (simp add: substitute_variables_def token_def)
  show "substitute_variables ''${MISSING}'' [] = ''${MISSING}''"
    by (simp add: substitute_variables_def)
qed

theorem substitute_variables_sequential_witness:
  "\<not> contains (''Dear '' @ butlast (token ''NAME'')) (token ''NAME'')
   \<and> str_replace (''Dear '' @ token ''NAME'' @ '', ${NAME}!'') (token ''NAME'') ''Ann''
       = ''Dear Ann, Ann!''
   \<and> \<not> contains ''Plan for ${OWNER}'' (token ''PROJECT_NAME'')
   \<and> substitute_variables ''Plan for ${OWNER}'' [(''PROJECT_NAME'', ''Acme'')] = ''Plan for ${OWNER}''"
  using substitute_variables_sequential
          [of "''Plan for ${OWNER}''" "''NAME''" "''Ann''" "[]" "''Dear ''" "'', ${NAME}!''"
              "[(''PROJECT_NAME'', ''Acme'')]"]
  by (simp add: token_def)

text \<open>
  Claim C6 as stated fails: the value of \<open>A\<close> brings in the token of \<open>B\<close>, and the pass
  for \<open>B\<close>, which comes later, replaces it.
\<close>

theorem substitute_nested_counterexample:
  "substitute_variables ''${A}'' [(''A'', ''${B}''), (''B'', ''x'')] = ''x''
   \<and> substitute_variables ''${A}'' [(''A'', ''${B}''), (''B'', ''x'')] \<noteq> ''${B}''"
  by (simp add: substitute_variables_def token_def)

subsection \<open>The difference between a board and its template\<close>

lemma set_minus_set: "set (set_minus xs ys) = set xs - set ys"
  by (auto simp: set_minus_def)

text \<open>
  Claim C3. The titles missing from the board are the template titles that no card has,
  the extra titles are the card titles that no template task has; the two sets are
  disjoint, and when there is no extra title the missing titles and the titles on the board
  together are the template titles.
\<close>

theorem diff_missing_extra:
  "set (missing_from_board template_tasks board_cards)
     = set (map entry_title template_tasks) - set (map shown_title board_cards)
   \<and> set (extra_in_board template_tasks board_cards)
     = set (map shown_title board_cards) - set (map entry_title template_tasks)
   \<and> set (missing_from_board template_tasks board_cards)
       \<inter> set (extra_in_board template_tasks board_cards) = {}
   \<and> (extra_in_board template_tasks board_cards = [] \<longrightarrow>
        set (missing_from_board template_tasks board_cards) \<union> set (board_titles board_cards)
          = set (template_titles template_tasks))"
proof -
  have m: "set (missing_from_board template_tasks board_cards)
     = set (map entry_title template_tasks) - set (map shown_title board_cards)"
    by (simp add: missing_from_board_def set_minus_set template_titles_def board_titles_def)
  have x: "set (extra_in_board template_tasks board_cards)
     = set (map shown_title board_cards) - set (map entry_title template_tasks)"
    by (simp add: extra_in_board_def set_minus_set template_titles_def board_titles_def)
  have t: "set (board_titles board_cards) = set (map shown_title board_cards)"
          "set (template_titles template_tasks) = set (map entry_title template_tasks)"
    by (simp_all add: template_titles_def board_titles_def)
  have e: "extra_in_board template_tasks board_cards = [] \<longleftrightarrow>
           set (extra_in_board template_tasks board_cards) = {}"
    by simp
  show ?thesis
    unfolding e unfolding m x t by blast
qed

theorem diff_missing_extra_witness:
  "extra_in_board [entry_titled ''Query'', entry_titled ''Plan''] [card_titled ''Query''] = []
   \<and> set (missing_from_board [entry_titled ''Query'', entry_titled ''Plan''] [card_titled ''Query''])
       \<union> set (board_titles [card_titled ''Query''])
     = set (template_titles [entry_titled ''Query'', entry_titled ''Plan''])
   \<and> missing_from_board [entry_titled ''Query'', entry_titled ''Plan''] [card_titled ''Query'']
     = [Some ''Plan'']"
  using diff_missing_extra [of "[entry_titled ''Query'', entry_titled ''Plan'']" "[card_titled ''Query'']"]
  by (simp add: extra_in_board_def missing_from_board_def set_minus_def template_titles_def
        board_titles_def entry_titled_def card_titled_def)

subsection \<open>The status of a card\<close>

lemma map_of_dict_set: "map_of (dict_set k v d) = (map_of d)(k \<mapsto> v)"
  by (induction d) auto

lemma find_append:
  "find P (xs @ ys) = (case find P xs of None \<Rightarrow> find P ys | Some x \<Rightarrow> Some x)"
  by (induction xs) auto



lemma build_maps_property_map:
  "map_of (fst (build_maps props (pm, om))) name =
     (case find (\<lambda>p. get_or (property_name p) [] = name) (rev props) of
        Some p \<Rightarrow> Some (get_or (property_id p) [])
      | None \<Rightarrow> map_of pm name)"
  by (induction props arbitrary: pm om)
     (auto simp: Let_def map_of_dict_set find_append split: option.splits)








lemmas title_defs =
  py_title_def is_ascii_def is_cased_def to_upper_def to_lower_def ascii_lowercase_def
  ascii_uppercase_def




subsection \<open>Discovery of templates\<close>

text \<open>
  The scan raises exactly when some template file is not UTF-8 text or holds JSON that is
  not an object, with the exception of the first such file; otherwise it lists the
  documents and skips every other file.
\<close>

lemma dir_raises_simps:
  "dir_raises [] = None"
  "dir_raises ((dir_name, entry) # rest) =
     (case raised_by entry of Some err \<Rightarrow> Some err | None \<Rightarrow> dir_raises rest)"
  by (cases "raised_by entry"; simp add: dir_raises_def)+

lemma dir_summaries_simps:
  "dir_summaries category_name [] = []"
  "dir_summaries category_name ((dir_name, entry) # rest) =
     (case entry of
        TemplateDir writable (Document d) \<Rightarrow> [summarize category_name dir_name d]
      | _ \<Rightarrow> []) @ dir_summaries category_name rest"
  by (simp_all add: dir_summaries_def)

lemma base_raises_simps:
  "base_raises [] = None"
  "base_raises ((name, OtherFile) # rest) = base_raises rest"
  "base_raises ((name, CategoryDir dirs) # rest) =
     (case dir_raises dirs of Some err \<Rightarrow> Some err | None \<Rightarrow> base_raises rest)"
  by (cases "dir_raises dirs"; simp add: base_raises_def)+

lemma base_summaries_simps:
  "base_summaries [] = []"
  "base_summaries ((name, OtherFile) # rest) = base_summaries rest"
  "base_summaries ((name, CategoryDir dirs) # rest) =
     dir_summaries name dirs @ base_summaries rest"
  by (simp_all add: base_summaries_def)

lemma scan_template_dirs_result:
  "scan_template_dirs category_name dirs acc =
     (case dir_raises dirs of
        Some err \<Rightarrow> Inl err
      | None \<Rightarrow> Inr (acc @ dir_summaries category_name dirs))"
proof (induction category_name dirs acc rule: scan_template_dirs.induct)
  case (1 category_name templates)
  show ?case by (simp add: dir_raises_simps dir_summaries_simps)
next
  case (2 category_name dir_name rest templates)
  then show ?case
    by (simp add: dir_raises_simps dir_summaries_simps raised_by_def split: option.splits)
next
  case (3 category_name dir_name writable f rest templates)
  then show ?case
    by (cases f)
       (simp_all add: dir_raises_simps dir_summaries_simps raised_by_def split: option.splits)
qed

lemma scan_categories_result:
  "scan_categories None entries acc =
     (case base_raises entries of
        Some err \<Rightarrow> Inl err
      | None \<Rightarrow> Inr (acc @ base_summaries entries))"
proof (induction entries arbitrary: acc)
  case Nil
  show ?case by (simp add: base_raises_simps base_summaries_simps)
next
  case (Cons entry entries)
  obtain name v where entry: "entry = (name, v)" by (cases entry)
  show ?case
  proof (cases v)
    case OtherFile
    with entry Cons.IH show ?thesis
      by (simp add: base_raises_simps base_summaries_simps split: option.splits)
  next
    case (CategoryDir dirs)
    with entry Cons.IH show ?thesis
      by (cases "dir_raises dirs")
         (simp_all add: base_raises_simps base_summaries_simps filtered_out_def
            scan_template_dirs_result split: option.splits)
  qed
qed

lemma discover_templates_result:
  "discover_templates None (Some entries) =
     (case base_raises entries of
        Some err \<Rightarrow> Inl err
      | None \<Rightarrow> Inr (base_summaries entries))"
  by (simp add: discover_templates_def scan_categories_result split: option.splits)

text \<open>
  Claim C9, at a directory that the claim covers: a valid template beside a
  \<^verbatim>\<open>template.json\<close> that holds the JSON array \<^verbatim>\<open>[]\<close>. The valid template alone is
  listed; with the array file beside it the scan raises \<^verbatim>\<open>AttributeError\<close> and lists
  nothing.
\<close>

theorem discover_raises_on_array_file:
  "discover_templates None demo_base = Inr [summarize ''framework'' ''demo'' demo_template]
   \<and> discover_templates None array_file_base = Inl AttributeError"
  by (simp add: discover_templates_def demo_base_def array_file_base_def filtered_out_def)

subsection \<open>Instantiation: the board\<close>

lemma demo_loads: "load_template ''demo'' demo_base = Inr (Some demo_template)"
  by (simp add: load_template_def discover_templates_def demo_base_def filtered_out_def
        summarize_def demo_template_def get_or_def empty_meta_def file_at_def)

lemma demo_not_empty: "demo_template \<noteq> empty_document"
  by (simp add: demo_template_def empty_document_def)

text \<open>
  Claim C2. When the request that creates the board is answered with an error, the tool
  returns that error at once: the board creation is the only call made (no card, no view),
  and the template directory is as it was (no instance record added, nothing saved).
\<close>

theorem board_creation_failure_is_fatal:
  assumes "load_template (param_template_id params) (templates_dir w) = Inr (Some t)"
    and "t \<noteq> empty_document"
    and "backend (api_calls w)
           (create_board_request params (get_or (board t) empty_board_config)
              (instantiate_variables e params)) = ErrorDict err"
  shows "focalboard_instantiate_template backend e params w =
           (Inr (BoardCreationError err),
            w\<lparr>api_calls := api_calls w @
                 [(create_board_request params (get_or (board t) empty_board_config)
                     (instantiate_variables e params), ErrorDict err)]\<rparr>)"
  using assms
  by (simp add: focalboard_instantiate_template_def instantiate_loaded_def api_request_def Let_def)

theorem board_creation_failure_is_fatal_witness:
  "load_template (param_template_id demo_params) (templates_dir demo_world) = Inr (Some demo_template)
   \<and> demo_template \<noteq> empty_document
   \<and> failing_api (api_calls demo_world)
        (create_board_request demo_params (get_or (board demo_template) empty_board_config)
           (instantiate_variables demo_env demo_params)) = ErrorDict ''Request timed out''
   \<and> fst (focalboard_instantiate_template failing_api demo_env demo_params demo_world)
        = Inr (BoardCreationError ''Request timed out'')
   \<and> templates_dir (snd (focalboard_instantiate_template failing_api demo_env demo_params demo_world))
        = demo_base
   \<and> length (api_calls (snd (focalboard_instantiate_template failing_api demo_env demo_params
        demo_world))) = 1"
  using board_creation_failure_is_fatal [of demo_params demo_world demo_template failing_api
          demo_env "''Request timed out''"]
  by (simp add: demo_loads demo_not_empty demo_params_def demo_world_def failing_api_def)

subsection \<open>Instantiation: the card loop\<close>

lemma card_posts_append: "card_posts (cs @ cs') = card_posts cs @ card_posts cs'"
  by (simp add: card_posts_def)

lemma view_posts_append: "view_posts (cs @ cs') = view_posts cs @ view_posts cs'"
  by (simp add: view_posts_def)

lemma failure_messages_append:
  "failure_messages (ps @ qs) = failure_messages ps @ failure_messages qs"
  by (simp add: failure_messages_def)

lemma successes_append: "successes (ps @ qs) = successes ps + successes qs"
  by (simp add: successes_def)

lemma api_request_eq:
  "api_request backend req cs = (backend cs req, cs @ [(req, backend cs req)])"
  by (simp add: api_request_def Let_def)

lemma no_view_among_checkboxes:
  "filter (\<lambda>b. blk_type b = ''view'') (map (checkbox_block board_id card_id variables) xs) = []"
  by (induction xs) (auto simp: checkbox_block_def Let_def)

lemma no_view_among_content:
  "filter (\<lambda>b. blk_type b = ''view'') (map (text_or_divider board_id card_id variables) xs) = []"
  by (induction xs) (auto simp: text_or_divider_def)

lemma add_checklist_frame:
  "card_posts (calls (add_checklist backend e board_id card_id variables checklist st))
     = card_posts (calls st)
   \<and> view_posts (calls (add_checklist backend e board_id card_id variables checklist st))
     = view_posts (calls st)
   \<and> errors (add_checklist backend e board_id card_id variables checklist st) = errors st
   \<and> cards_created (add_checklist backend e board_id card_id variables checklist st)
     = cards_created st"
  by (simp add: add_checklist_def api_request_eq Let_def card_posts_def view_posts_def
        post_blocks_request_def patch_order_request_def no_view_among_checkboxes)

lemma append_content_order_frame:
  "card_posts (append_content_order backend board_id card_id additions cards_result cs)
     = card_posts cs
   \<and> view_posts (append_content_order backend board_id card_id additions cards_result cs)
     = view_posts cs"
  by (simp add: append_content_order_def api_request_eq card_posts_def view_posts_def
        patch_order_request_def split: response.splits option.splits)

lemma add_content_blocks_frame:
  "card_posts (calls (add_content_blocks backend e board_id card_id variables blocks st))
     = card_posts (calls st)
   \<and> view_posts (calls (add_content_blocks backend e board_id card_id variables blocks st))
     = view_posts (calls st)
   \<and> errors (add_content_blocks backend e board_id card_id variables blocks st) = errors st
   \<and> cards_created (add_content_blocks backend e board_id card_id variables blocks st)
     = cards_created st"
  by (simp add: add_content_blocks_def api_request_eq Let_def append_content_order_frame)
     (simp add: card_posts_def view_posts_def post_blocks_request_def get_card_blocks_request_def
        no_view_among_content)

text \<open>One task: one card creation, and for a failure one message.\<close>

lemma create_task_card_step:
  assumes "create_task_card backend e board_id variables property_map option_map phase_num t st
             = Inr st'"
  shows "\<exists>r. card_posts (calls st') = card_posts (calls st) @
                [(task_card_data e variables property_map option_map phase_num t, r)]
           \<and> errors st' = errors st @
                failure_messages [(task_card_data e variables property_map option_map phase_num t, r)]
           \<and> cards_created st' = cards_created st +
                successes [(task_card_data e variables property_map option_map phase_num t, r)]
           \<and> view_posts (calls st') = view_posts (calls st)"
proof -
  let ?d = "task_card_data e variables property_map option_map phase_num t"
  let ?r = "backend (calls st) (create_card_request board_id ?d)"
  have here: "card_posts [(create_card_request board_id ?d, ?r)] = [(?d, ?r)]"
             "view_posts [(create_card_request board_id ?d, ?r)] = []"
    by (simp_all add: card_posts_def view_posts_def create_card_request_def)
  have named: "get_or (card_title ?d) [] = substituted_title variables t"
    by (simp add: task_card_data_def get_or_def)
  show ?thesis
  proof (cases ?r)
    case (ErrorDict err)
    with assms have "st' = st\<lparr>calls := calls st @ [(create_card_request board_id ?d, ?r)],
                              errors := errors st @ [error_message (substituted_title variables t) err]\<rparr>"
      by (simp add: create_task_card_def api_request_eq Let_def)
    then show ?thesis
      using ErrorDict here
      by (intro exI [of _ ?r]) (simp add: card_posts_append view_posts_append
            failure_messages_def successes_def named)
  next
    case (JsonList l)
    with assms show ?thesis
      by (simp add: create_task_card_def api_request_eq Let_def)
  next
    case (Dict created)
    define st1 where "st1 = st\<lparr>calls := calls st @ [(create_card_request board_id ?d, ?r)],
                               cards_created := cards_created st + 1\<rparr>"
    from Dict assms have "st' =
        add_content_blocks backend e board_id (get_or (obj_id created) []) variables
          (get_or (task_content_blocks t) [])
          (add_checklist backend e board_id (get_or (obj_id created) []) variables
             (get_or (task_checklist t) []) st1)"
      by (simp add: create_task_card_def api_request_eq Let_def st1_def)
    then have "card_posts (calls st') = card_posts (calls st1)"
      "view_posts (calls st') = view_posts (calls st1)"
      "errors st' = errors st1" "cards_created st' = cards_created st1"
      by (simp_all add: add_content_blocks_frame add_checklist_frame)
    then show ?thesis
      using Dict here
      by (intro exI [of _ ?r]) (simp add: st1_def card_posts_append view_posts_append
            failure_messages_def successes_def)
  qed
qed

lemma create_phase_cards_batch:
  assumes "create_phase_cards backend e board_id variables property_map option_map phase_num ts st
             = Inr st'"
  shows "\<exists>posts. card_posts (calls st') = card_posts (calls st) @ posts
           \<and> map fst posts = map (task_card_data e variables property_map option_map phase_num) ts
           \<and> errors st' = errors st @ failure_messages posts
           \<and> cards_created st' = cards_created st + successes posts
           \<and> view_posts (calls st') = view_posts (calls st)"
  using assms
proof (induction ts arbitrary: st)
  case Nil
  then show ?case by (intro exI [of _ "[]"]) (simp add: failure_messages_def successes_def)
next
  case (Cons t ts)
  from Cons.prems obtain st1 where
    one: "create_task_card backend e board_id variables property_map option_map phase_num t st
            = Inr st1"
    and rest: "create_phase_cards backend e board_id variables property_map option_map phase_num
                 ts st1 = Inr st'"
    by (auto split: sum.splits)
  from create_task_card_step [OF one] obtain r where r:
    "card_posts (calls st1) = card_posts (calls st) @
       [(task_card_data e variables property_map option_map phase_num t, r)]"
    "errors st1 = errors st @
       failure_messages [(task_card_data e variables property_map option_map phase_num t, r)]"
    "cards_created st1 = cards_created st +
       successes [(task_card_data e variables property_map option_map phase_num t, r)]"
    "view_posts (calls st1) = view_posts (calls st)"
    by blast
  from Cons.IH [OF rest] obtain posts where posts:
    "card_posts (calls st') = card_posts (calls st1) @ posts"
    "map fst posts = map (task_card_data e variables property_map option_map phase_num) ts"
    "errors st' = errors st1 @ failure_messages posts"
    "cards_created st' = cards_created st1 + successes posts"
    "view_posts (calls st') = view_posts (calls st1)"
    by blast
  let ?p = "(task_card_data e variables property_map option_map phase_num t, r)"
  have fm: "failure_messages (?p # posts) = failure_messages [?p] @ failure_messages posts"
    using failure_messages_append [of "[?p]" posts] by simp
  have su: "successes (?p # posts) = successes [?p] + successes posts"
    using successes_append [of "[?p]" posts] by simp
  show ?case
    using r posts
    by (intro exI [of _ "?p # posts"]) (simp add: fm su)
qed

lemma create_cards_batch:
  assumes "create_cards backend e board_id variables property_map option_map ps st = Inr st'"
  shows "\<exists>posts. card_posts (calls st') = card_posts (calls st) @ posts
           \<and> map fst posts = template_card_data e variables property_map option_map ps
           \<and> errors st' = errors st @ failure_messages posts
           \<and> cards_created st' = cards_created st + successes posts
           \<and> view_posts (calls st') = view_posts (calls st)"
  using assms
proof (induction ps arbitrary: st)
  case Nil
  then show ?case
    by (intro exI [of _ "[]"]) (simp add: failure_messages_def successes_def template_card_data_def)
next
  case (Cons p ps)
  from Cons.prems obtain st1 where
    one: "create_phase_cards backend e board_id variables property_map option_map
            (get_or (phase_number p) 0) (get_or (phase_tasks p) []) st = Inr st1"
    and rest: "create_cards backend e board_id variables property_map option_map ps st1 = Inr st'"
    by (auto split: sum.splits)
  from create_phase_cards_batch [OF one] obtain qs where qs:
    "card_posts (calls st1) = card_posts (calls st) @ qs"
    "map fst qs = map (task_card_data e variables property_map option_map (get_or (phase_number p) 0))
                      (get_or (phase_tasks p) [])"
    "errors st1 = errors st @ failure_messages qs"
    "cards_created st1 = cards_created st + successes qs"
    "view_posts (calls st1) = view_posts (calls st)"
    by blast
  from Cons.IH [OF rest] obtain posts where posts:
    "card_posts (calls st') = card_posts (calls st1) @ posts"
    "map fst posts = template_card_data e variables property_map option_map ps"
    "errors st' = errors st1 @ failure_messages posts"
    "cards_created st' = cards_created st1 + successes posts"
    "view_posts (calls st') = view_posts (calls st1)"
    by blast
  show ?case
    using qs posts
    by (intro exI [of _ "qs @ posts"])
       (simp add: failure_messages_append successes_append template_card_data_def)
qed




text \<open>An answer that is a JSON array makes \<^verbatim>\<open>card_result.get\<close> raise: the loop ends there.\<close>

lemma create_task_card_raises_on_array:
  assumes "backend (calls st)
             (create_card_request board_id
                (task_card_data e variables property_map option_map phase_num t)) = JsonList l"
  shows "\<exists>st'. create_task_card backend e board_id variables property_map option_map phase_num t st
                 = Inl (AttributeError, st')"
  using assms by (simp add: create_task_card_def api_request_eq Let_def)

lemmas template_store_defs =
  load_template_def discover_templates_def filtered_out_def summarize_def get_or_def
  empty_meta_def file_at_def save_template_def make_dirs_def write_json_def
  opens_for_writing_def save_if_listed_def stored_under_its_id_def listed_category_def

lemmas instantiate_defs =
  focalboard_instantiate_template_def instantiate_loaded_def finish_instantiate_def
  render_report_def track_instance_def default_view_block_def create_board_request_def
  instantiate_board_title_def instantiate_variables_def setdefault_def
  empty_board_config_def create_task_card_def task_card_data_def substituted_title_def
  task_card_properties_def
  status_properties_def phase_properties_def add_checklist_def add_content_blocks_def
  create_card_request_def post_blocks_request_def api_request_def dict_get_def
  substitute_variables_def token_def error_message_def empty_document_def Let_def
  title_defs

subsection \<open>Instantiation: the view, the instance record and the report\<close>


text \<open>A template that loads is listed, and "find the category and save" is one save.\<close>

lemma loaded_is_listed:
  assumes "load_template template_id base = Inr (Some t)"
  shows "\<exists>category. listed_category template_id base = Some category"
  using assms
  by (auto simp: load_template_def listed_category_def split: sum.splits option.splits)

lemma make_dirs_raises:
  "make_dirs category template_id base = Inl err \<Longrightarrow> err = OSError"
  by (auto simp: make_dirs_def Let_def split: option.splits base_entry.splits dir_entry.splits)

lemma save_if_listed_result:
  assumes "listed_category template_id base = Some category"
  shows "save_if_listed d template_id base =
           (case make_dirs category template_id base of
              Inl err \<Rightarrow> Inl OSError
            | Inr entries \<Rightarrow> Inr (Some (snd (write_json d category template_id entries))))"
proof -
  from assms obtain templates template_info where
    "discover_templates None base = Inr templates"
    "find (\<lambda>s. summary_id s = template_id) templates = Some template_info"
    "summary_category template_info = category"
    by (auto simp: listed_category_def split: sum.splits)
  then show ?thesis
    using make_dirs_raises [of category template_id base]
    by (auto simp: save_if_listed_def save_template_def split_beta split: sum.splits)
qed


lemma finish_instantiate_created:
  assumes "finish_instantiate backend e params t board_id board_title property_map base st
             = (Inr (BoardCreated r), w')"
  shows "api_calls w' = calls st @
           [(post_blocks_request board_id
               [default_view_block (block_ids e (generated st)) board_id property_map],
             backend (calls st)
               (post_blocks_request board_id
                  [default_view_block (block_ids e (generated st)) board_id property_map]))]
         \<and> r = render_report params t board_id board_title
                 (\<not> is_error (backend (calls st)
                     (post_blocks_request board_id
                        [default_view_block (block_ids e (generated st)) board_id property_map])))
                 st"
  using assms
  by (auto simp: finish_instantiate_def api_request_eq Let_def split: sum.splits)


lemma board_request_is_no_card:
  "card_posts [(create_board_request params board_config variables, r)] = []"
  "view_posts [(create_board_request params board_config variables, r)] = []"
  by (simp_all add: card_posts_def view_posts_def create_board_request_def)








subsection \<open>Instantiation: the default view\<close>

lemma default_view_block_columns:
  "default_view_block view_id board_id (fst (build_maps props ([], []))) =
     \<lparr>blk_id = view_id, blk_type = ''view'', blk_parentId = board_id, blk_boardId = board_id,
      blk_title = ''Task Overview'',
      blk_fields = ViewFields ''table''
        (case find (\<lambda>p. get_or (property_name p) [] = ''Status'') (rev props) of
           None \<Rightarrow> []
         | Some p \<Rightarrow> if get_or (property_id p) [] \<noteq> [] then [get_or (property_id p) []] else [])\<rparr>"
  by (simp add: default_view_block_def dict_get_def build_maps_property_map Let_def
        split: option.splits)

text \<open>
  Claim C7, as the code has it. Whenever the tool returns its report, its last call has
  posted the view block titled \<open>Task Overview\<close>, of view type \<open>table\<close>, and no other view
  block was posted by the run: whether the schema has a property named \<open>Status\<close> or not.
  The visible properties are the id of the last property named \<open>Status\<close> when there is
  one and its id is not empty, and none otherwise. The report says whether the post was
  answered with an error.
\<close>

theorem default_view_is_always_posted:
  assumes loaded: "load_template (param_template_id params) (templates_dir w) = Inr (Some t)"
    and created: "focalboard_instantiate_template backend e params w = (Inr (BoardCreated r), w')"
  shows "\<exists>cs view_id view_result.
           api_calls w' = cs @
             [(post_blocks_request (report_board_id r)
                 [\<lparr>blk_id = view_id, blk_type = ''view'', blk_parentId = report_board_id r,
                   blk_boardId = report_board_id r, blk_title = ''Task Overview'',
                   blk_fields = ViewFields ''table''
                     (case find (\<lambda>p. get_or (property_name p) [] = ''Status'')
                             (rev (get_or (cardProperties (get_or (board t) empty_board_config)) []))
                      of None \<Rightarrow> []
                       | Some p \<Rightarrow> if get_or (property_id p) [] \<noteq> []
                                   then [get_or (property_id p) []] else [])\<rparr>],
               view_result)]
         \<and> view_posts cs = view_posts (api_calls w)
         \<and> report_view_created r = (\<not> is_error view_result)"
proof -
  let ?variables = "instantiate_variables e params"
  let ?config = "get_or (board t) empty_board_config"
  let ?req = "create_board_request params ?config ?variables"
  let ?props = "get_or (cardProperties ?config) []"
  let ?maps = "build_maps ?props ([], [])"
  from loaded created have inner:
    "instantiate_loaded backend e params t w = (Inr (BoardCreated r), w')"
    by (simp add: focalboard_instantiate_template_def split: if_splits)
  then obtain made where made: "backend (api_calls w) ?req = Dict made"
    by (cases "backend (api_calls w) ?req")
       (auto simp: instantiate_loaded_def api_request_eq Let_def)
  let ?board_id = "get_or (obj_id made) ''unknown''"
  let ?st0 = "\<lparr>calls = api_calls w @ [(?req, Dict made)], cards_created = 0, errors = [],
               generated = 0\<rparr>"
  from inner made obtain st where
    loop: "create_cards backend e ?board_id ?variables (fst ?maps) (snd ?maps)
             (get_or (phases t) []) ?st0 = Inr st"
    and fin: "finish_instantiate backend e params t ?board_id
                (instantiate_board_title ?config ?variables) (fst ?maps) (templates_dir w) st
              = (Inr (BoardCreated r), w')"
    by (auto simp: instantiate_loaded_def api_request_eq Let_def split_beta split: sum.splits)
  let ?view = "default_view_block (block_ids e (generated st)) ?board_id (fst ?maps)"
  let ?answer = "backend (calls st) (post_blocks_request ?board_id [?view])"
  from finish_instantiate_created [OF fin] have
    calls: "api_calls w' = calls st @ [(post_blocks_request ?board_id [?view], ?answer)]"
    and r: "r = render_report params t ?board_id (instantiate_board_title ?config ?variables)
                  (\<not> is_error ?answer) st"
    by simp_all
  from create_cards_batch [OF loop] have "view_posts (calls st) = view_posts (calls ?st0)"
    by blast
  then have before: "view_posts (calls st) = view_posts (api_calls w)"
    by (simp add: view_posts_append board_request_is_no_card)
  have id: "report_board_id r = ?board_id" and seen: "report_view_created r = (\<not> is_error ?answer)"
    using r by (simp_all add: render_report_def Let_def)
  show ?thesis
    using calls before seen
    unfolding id default_view_block_columns
    by blast
qed


lemma first_block_id: "block_ids demo_env 0 = ''blockid0''"
  by (simp add: demo_env_def str_nat.simps)

lemma demo_instantiated:
  "fst (focalboard_instantiate_template accepting_api demo_env demo_params demo_world) =
     Inr (BoardCreated
       \<lparr>report_template_name = ''Demo'', report_template_version = ''1.0.0'',
        report_project = ''Acme'', report_board_id = ''board-1'',
        report_board_title = ''Acme Board'', report_cards_created = 1,
        report_view_created = True, report_errors_total = 0,
        report_errors_shown = [], report_errors_more = None\<rparr>)"
  by (simp add: template_store_defs instantiate_defs demo_params_def demo_world_def
        demo_base_def demo_template_def plain_task_def accepting_api_def empty_object_def
        status_property_def)

lemma demo_view_posts:
  "view_posts (api_calls (snd (focalboard_instantiate_template accepting_api demo_env demo_params
      demo_world))) =
     [\<lparr>blk_id = ''blockid0'', blk_type = ''view'', blk_parentId = ''board-1'',
       blk_boardId = ''board-1'', blk_title = ''Task Overview'',
       blk_fields = ViewFields ''table'' [''prop-status'']\<rparr>]"
  by (simp add: template_store_defs instantiate_defs demo_params_def demo_world_def
        demo_base_def demo_template_def plain_task_def accepting_api_def empty_object_def
        status_property_def view_posts_def first_block_id)

theorem default_view_is_always_posted_witness:
  "load_template (param_template_id demo_params) (templates_dir demo_world) = Inr (Some demo_template)
   \<and> fst (focalboard_instantiate_template accepting_api demo_env demo_params demo_world) =
     Inr (BoardCreated
       \<lparr>report_template_name = ''Demo'', report_template_version = ''1.0.0'',
        report_project = ''Acme'', report_board_id = ''board-1'',
        report_board_title = ''Acme Board'', report_cards_created = 1,
        report_view_created = True, report_errors_total = 0,
        report_errors_shown = [], report_errors_more = None\<rparr>)
   \<and> view_posts (api_calls (snd (focalboard_instantiate_template accepting_api demo_env demo_params
        demo_world))) =
     [\<lparr>blk_id = ''blockid0'', blk_type = ''view'', blk_parentId = ''board-1'',
       blk_boardId = ''board-1'', blk_title = ''Task Overview'',
       blk_fields = ViewFields ''table'' [''prop-status'']\<rparr>]"
proof -
  have h1: "load_template (param_template_id demo_params) (templates_dir demo_world)
              = Inr (Some demo_template)"
    by (simp add: demo_loads demo_params_def demo_world_def)
  have h2: "focalboard_instantiate_template accepting_api demo_env demo_params demo_world =
     (Inr (BoardCreated
       \<lparr>report_template_name = ''Demo'', report_template_version = ''1.0.0'',
        report_project = ''Acme'', report_board_id = ''board-1'',
        report_board_title = ''Acme Board'', report_cards_created = 1,
        report_view_created = True, report_errors_total = 0,
        report_errors_shown = [], report_errors_more = None\<rparr>),
      snd (focalboard_instantiate_template accepting_api demo_env demo_params demo_world))"
    using demo_instantiated by (simp add: prod_eq_iff)
  show ?thesis
    using default_view_is_always_posted [OF h1 h2]
    by (intro conjI h1 demo_instantiated demo_view_posts)
qed

text \<open>
  Claim C7 as stated fails: the template has no card property at all, and the view is
  posted all the same, with no visible property.
\<close>

theorem view_without_status_counterexample:
  "find (\<lambda>p. get_or (property_name p) [] = ''Status'')
     (get_or (cardProperties (get_or (board bare_template) empty_board_config)) []) = None
   \<and> view_posts (api_calls (snd (focalboard_instantiate_template accepting_api demo_env bare_params
        bare_world))) =
     [\<lparr>blk_id = ''blockid0'', blk_type = ''view'', blk_parentId = ''board-1'',
       blk_boardId = ''board-1'', blk_title = ''Task Overview'',
       blk_fields = ViewFields ''table'' []\<rparr>]
   \<and> fst (focalboard_instantiate_template accepting_api demo_env bare_params bare_world) =
     Inr (BoardCreated
       \<lparr>report_template_name = ''Unknown'', report_template_version = ''0.0.0'',
        report_project = ''Acme'', report_board_id = ''board-1'',
        report_board_title = ''Acme Board'', report_cards_created = 1,
        report_view_created = True, report_errors_total = 0,
        report_errors_shown = [], report_errors_more = None\<rparr>)"
  by (simp add: template_store_defs instantiate_defs bare_params_def bare_world_def
        bare_template_def plain_task_def accepting_api_def empty_object_def view_posts_def
        first_block_id)

subsection \<open>Saving a template and reading it behind\<close>

lemma map_of_snoc_absent:
  "map_of xs k = None \<Longrightarrow> map_of (xs @ [(k, v)]) k' = (if k' = k then Some v else map_of xs k')"
  by (induction xs) auto

text \<open>Looking up a file, category first.\<close>

lemma file_at_Some:
  "file_at (Some entries) (c, n) =
     (case map_of entries c of Some (CategoryDir dirs) \<Rightarrow> file_in dirs n | _ \<Rightarrow> Missing)"
  by (simp add: file_at_def file_in_def split: option.splits base_entry.splits)

lemma file_at_None: "file_at None path = Missing"
  by (simp add: file_at_def)

text \<open>Making the directories changes no file and no listing.\<close>

lemma make_dirs_files:
  assumes "make_dirs category template_id base = Inr entries"
  shows "file_at (Some entries) path = file_at base path"
proof -
  obtain c n where path: "path = (c, n)" by (cases path)
  define es where "es = (case base of None \<Rightarrow> [] | Some es \<Rightarrow> es)"
  have old: "file_at base (c, n) = file_at (Some es) (c, n)"
    by (cases base) (simp_all add: es_def file_at_def)
  show ?thesis
  proof (cases "map_of es category")
    case None
    with assms have "entries = es @ [(category, CategoryDir [(template_id, TemplateDir True Missing)])]"
      by (simp add: make_dirs_def Let_def es_def)
    then show ?thesis
      unfolding path old file_at_Some
      using None
      by (auto simp: map_of_snoc_absent file_in_def
            split: option.splits base_entry.splits if_splits)
  next
    case (Some found)
    show ?thesis
    proof (cases found)
      case OtherFile
      with Some assms show ?thesis by (simp add: make_dirs_def Let_def es_def)
    next
      case (CategoryDir dirs)
      show ?thesis
      proof (cases "map_of dirs template_id")
        case None
        with Some CategoryDir assms have
          "entries = dict_set category
                       (CategoryDir (dirs @ [(template_id, TemplateDir True Missing)])) es"
          by (simp add: make_dirs_def Let_def es_def)
        moreover have "file_in (dirs @ [(template_id, TemplateDir True Missing)]) n = file_in dirs n"
          using None
          by (auto simp: file_in_def map_of_snoc_absent split: option.splits if_splits)
        ultimately show ?thesis
          unfolding path old file_at_Some
          using Some CategoryDir by (auto simp: map_of_dict_set)
      next
        case (Some entry)
        with \<open>map_of es category = Some found\<close> CategoryDir assms have "entries = es"
          by (cases entry) (simp_all add: make_dirs_def Let_def es_def)
        then show ?thesis unfolding path old by simp
      qed
    qed
  qed
qed

lemma first_raised_append:
  "first_raised (xs @ ys) = (case first_raised xs of Some err \<Rightarrow> Some err | None \<Rightarrow> first_raised ys)"
  by (induction xs rule: first_raised.induct) auto

lemma dir_append:
  "dir_raises (dirs @ others) =
     (case dir_raises dirs of Some err \<Rightarrow> Some err | None \<Rightarrow> dir_raises others)"
  "dir_summaries category_name (dirs @ others) =
     dir_summaries category_name dirs @ dir_summaries category_name others"
  by (simp_all add: dir_raises_def dir_summaries_def first_raised_append split: option.splits)

lemma base_append:
  "base_raises (entries @ others) =
     (case base_raises entries of Some err \<Rightarrow> Some err | None \<Rightarrow> base_raises others)"
  "base_summaries (entries @ others) = base_summaries entries @ base_summaries others"
  by (simp_all add: base_raises_def base_summaries_def first_raised_append split: option.splits)

text \<open>Replacing the directories of a category, in the listing.\<close>

lemma base_after_dict_set:
  assumes "map_of entries category = Some (CategoryDir dirs)"
  shows "\<exists>ahead behind.
           base_raises entries =
             (case base_raises ahead of Some err \<Rightarrow> Some err
              | None \<Rightarrow> (case dir_raises dirs of Some err \<Rightarrow> Some err | None \<Rightarrow> base_raises behind))
         \<and> base_summaries entries = base_summaries ahead @ dir_summaries category dirs
                                     @ base_summaries behind
         \<and> (\<forall>dirs'. base_raises (dict_set category (CategoryDir dirs') entries) =
             (case base_raises ahead of Some err \<Rightarrow> Some err
              | None \<Rightarrow> (case dir_raises dirs' of Some err \<Rightarrow> Some err | None \<Rightarrow> base_raises behind))
            \<and> base_summaries (dict_set category (CategoryDir dirs') entries) =
                base_summaries ahead @ dir_summaries category dirs' @ base_summaries behind)"
  using assms
proof (induction entries)
  case Nil
  then show ?case by simp
next
  case (Cons entry entries)
  obtain name v where entry: "entry = (name, v)" by (cases entry)
  show ?case
  proof (cases "name = category")
    case True
    with Cons.prems entry have v: "v = CategoryDir dirs" by simp
    show ?thesis
      unfolding entry v True
      by (intro exI [of _ "[]"] exI [of _ entries])
         (simp add: base_raises_simps base_summaries_simps)
  next
    case False
    with Cons.prems entry have "map_of entries category = Some (CategoryDir dirs)" by simp
    from Cons.IH [OF this] obtain ahead behind where fb:
      "base_raises entries =
         (case base_raises ahead of Some err \<Rightarrow> Some err
          | None \<Rightarrow> (case dir_raises dirs of Some err \<Rightarrow> Some err | None \<Rightarrow> base_raises behind))"
      "base_summaries entries = base_summaries ahead @ dir_summaries category dirs
                                 @ base_summaries behind"
      "\<And>dirs'. base_raises (dict_set category (CategoryDir dirs') entries) =
             (case base_raises ahead of Some err \<Rightarrow> Some err
              | None \<Rightarrow> (case dir_raises dirs' of Some err \<Rightarrow> Some err | None \<Rightarrow> base_raises behind))"
      "\<And>dirs'. base_summaries (dict_set category (CategoryDir dirs') entries) =
                base_summaries ahead @ dir_summaries category dirs' @ base_summaries behind"
      by blast
    show ?thesis
      unfolding entry
      using False fb
      by (intro exI [of _ "(name, v) # ahead"] exI [of _ behind])
         (cases v; simp add: base_raises_simps base_summaries_simps split: option.splits)
  qed
qed

lemma discover_None_base:
  "discover_templates None base =
     discover_templates None (Some (case base of None \<Rightarrow> [] | Some es \<Rightarrow> es))"
  by (cases base) (simp_all add: discover_templates_def)

lemma make_dirs_listing:
  assumes "make_dirs category template_id base = Inr entries"
  shows "discover_templates None (Some entries) = discover_templates None base"
proof -
  define es where "es = (case base of None \<Rightarrow> [] | Some es \<Rightarrow> es)"
  have old: "discover_templates None base = discover_templates None (Some es)"
    unfolding es_def by (rule discover_None_base)
  let ?new = "(template_id, TemplateDir True Missing)"
  have single: "dir_raises [?new] = None" "dir_summaries c [?new] = []" for c
    by (simp_all add: dir_raises_simps dir_summaries_simps raised_by_def)
  show ?thesis
  proof (cases "map_of es category")
    case None
    with assms have "entries = es @ [(category, CategoryDir [?new])]"
      by (simp add: make_dirs_def Let_def es_def)
    then show ?thesis
      unfolding old discover_templates_result
      by (simp add: base_append base_raises_simps base_summaries_simps single
            split: option.splits)
  next
    case (Some found)
    show ?thesis
    proof (cases found)
      case OtherFile
      with Some assms show ?thesis by (simp add: make_dirs_def Let_def es_def)
    next
      case (CategoryDir dirs)
      show ?thesis
      proof (cases "map_of dirs template_id")
        case None
        with Some CategoryDir assms have
          entries: "entries = dict_set category (CategoryDir (dirs @ [?new])) es"
          by (simp add: make_dirs_def Let_def es_def)
        from Some CategoryDir have "map_of es category = Some (CategoryDir dirs)" by simp
        from base_after_dict_set [OF this] obtain ahead behind where
          "base_raises es =
             (case base_raises ahead of Some err \<Rightarrow> Some err
              | None \<Rightarrow> (case dir_raises dirs of Some err \<Rightarrow> Some err
                          | None \<Rightarrow> base_raises behind))"
          "base_summaries es = base_summaries ahead @ dir_summaries category dirs
                                 @ base_summaries behind"
          "base_raises (dict_set category (CategoryDir (dirs @ [?new])) es) =
             (case base_raises ahead of Some err \<Rightarrow> Some err
              | None \<Rightarrow> (case dir_raises (dirs @ [?new]) of Some err \<Rightarrow> Some err
                          | None \<Rightarrow> base_raises behind))"
          "base_summaries (dict_set category (CategoryDir (dirs @ [?new])) es) =
             base_summaries ahead @ dir_summaries category (dirs @ [?new])
               @ base_summaries behind"
          by blast
        then show ?thesis
          unfolding old discover_templates_result entries
          by (simp add: dir_append single split: option.splits)
      next
        case (Some entry)
        with \<open>map_of es category = Some found\<close> CategoryDir assms have "entries = es"
          by (cases entry) (simp_all add: make_dirs_def Let_def es_def)
        then show ?thesis unfolding old by simp
      qed
    qed
  qed
qed

lemma make_dirs_made:
  assumes "make_dirs category template_id base = Inr entries"
  shows "\<exists>dirs writable f. map_of entries category = Some (CategoryDir dirs)
           \<and> map_of dirs template_id = Some (TemplateDir writable f)"
  using assms
  by (auto simp: make_dirs_def Let_def map_add_def map_of_dict_set
        split: option.splits base_entry.splits dir_entry.splits)


text \<open>Writing the file: the file named changes, and no other.\<close>

lemma write_json_written:
  assumes "opens_for_writing category template_id entries"
  shows "\<exists>dirs f. map_of entries category = Some (CategoryDir dirs)
           \<and> map_of dirs template_id = Some (TemplateDir True f)
           \<and> write_json d category template_id entries =
               (True, dict_set category
                        (CategoryDir (dict_set template_id (TemplateDir True (Document d)) dirs))
                        entries)"
proof -
  from assms obtain dirs where c: "map_of entries category = Some (CategoryDir dirs)"
    by (cases "map_of entries category")
       (auto simp: opens_for_writing_def split: base_entry.splits)
  from assms c obtain entry where e: "map_of dirs template_id = Some entry"
    by (cases "map_of dirs template_id") (auto simp: opens_for_writing_def)
  from assms c e obtain f where f: "entry = TemplateDir True f"
    by (cases entry) (auto simp: opens_for_writing_def)
  from assms c e f show ?thesis
    by (simp add: write_json_def)
qed

lemma write_json_refused:
  "\<not> opens_for_writing category template_id entries \<Longrightarrow>
   write_json d category template_id entries = (False, entries)"
  by (simp add: write_json_def)

lemma write_json_files:
  "file_at (Some (snd (write_json d category template_id entries))) path =
     (if opens_for_writing category template_id entries \<and> path = (category, template_id)
      then Document d else file_at (Some entries) path)"
proof (cases "opens_for_writing category template_id entries")
  case False
  then show ?thesis by (simp add: write_json_refused)
next
  case True
  obtain c n where path: "path = (c, n)" by (cases path)
  from write_json_written [OF True, of d] obtain dirs f where w:
    "map_of entries category = Some (CategoryDir dirs)"
    "map_of dirs template_id = Some (TemplateDir True f)"
    "write_json d category template_id entries =
       (True, dict_set category
                (CategoryDir (dict_set template_id (TemplateDir True (Document d)) dirs)) entries)"
    by blast
  have "file_in (dict_set template_id (TemplateDir True (Document d)) dirs) n =
          (if n = template_id then Document d else file_in dirs n)"
    by (simp add: file_in_def map_of_dict_set)
  then show ?thesis
    unfolding path file_at_Some w(3)
    using True w(1) by (auto simp: map_of_dict_set)
qed




subsection \<open>Synchronisation: what reaches the template directory\<close>

lemma save_if_listed_files:
  assumes cat: "listed_category template_id base = Some category"
    and saved: "save_if_listed d template_id base = Inr base'"
  shows "file_at base' path =
           (if can_save template_id base \<and> path = (category, template_id) then Document d
            else file_at base path)"
proof -
  from save_if_listed_result [OF cat, of d] saved obtain entries where
    made: "make_dirs category template_id base = Inr entries"
    and base': "base' = Some (snd (write_json d category template_id entries))"
    by (auto split: sum.splits)
  have can: "can_save template_id base = opens_for_writing category template_id entries"
    using cat made by (simp add: can_save_def)
  show ?thesis
    unfolding base' write_json_files can
    using make_dirs_files [OF made] by simp
qed

lemma save_if_listed_unlisted:
  assumes "listed_category template_id base = None"
    and "save_if_listed d template_id base = Inr base'"
  shows "base' = base"
  using assms
  by (auto simp: listed_category_def save_if_listed_def split: sum.splits option.splits)











subsection \<open>Synchronisation: proposals for extra cards\<close>

lemma listed_single: "listed [x] = Inr [x]"
  by (cases x) (simp_all add: listed_def py_sorted_def)

lemma template_tasks_of_phases: "phases t' = phases t \<Longrightarrow> template_tasks_of t' = template_tasks_of t"
  by (simp add: template_tasks_of_def)



text \<open>
  Outside these conditions the run does not append the proposal: it raises \<^verbatim>\<open>KeyError\<close>
  on a \<open>feedback\<close> section without \<open>pending_proposals\<close>, it raises \<^verbatim>\<open>TypeError\<close> on
  missing titles that \<^verbatim>\<open>sorted\<close> refuses (a task without a title beside a task with one),
  and where the template cannot be saved it raises \<^verbatim>\<open>OSError\<close> or reports the proposal
  and leaves every file as it was.
\<close>

lemma sync_raises_without_pending_list:
  assumes loaded: "load_template (sync_template_id params) (templates_dir w) = Inr (Some t)"
    and truthy: "t \<noteq> empty_document"
    and dir: "sync_direction params = ''board_to_template''"
    and wet: "\<not> sync_dry_run params"
    and board_up: "\<not> is_error (backend (api_calls w) (get_board_request (sync_board_id params)))"
    and cards: "backend (api_calls w @ [(get_board_request (sync_board_id params),
                   backend (api_calls w) (get_board_request (sync_board_id params)))])
                  (get_cards_request (sync_board_id params)) = JsonList cards"
    and one: "extra_in_board (template_tasks_of t) (board_cards_of cards) = [x]"
    and sortable: "listed (missing_from_board (template_tasks_of t) (board_cards_of cards)) = Inr shown"
    and none: "pending_proposals (get_or (feedback t) empty_feedback) = None"
  shows "fst (focalboard_sync_template backend e params w) = Inl KeyError
       \<and> templates_dir (snd (focalboard_sync_template backend e params w)) = templates_dir w"
proof -
  let ?bid = "sync_board_id params"
  let ?board_result = "backend (api_calls w) (get_board_request ?bid)"
  have "propose_extras e params t [x] base = Inl KeyError" for base
    using none by (simp add: propose_extras_def)
  then have "sync_loaded backend e params t w =
      (Inl KeyError,
       w\<lparr>api_calls := (api_calls w @ [(get_board_request ?bid, ?board_result)])
                          @ [(get_cards_request ?bid, JsonList cards)]\<rparr>)"
    using board_up cards one sortable dir wet
    by (cases ?board_result)
       (simp_all add: sync_loaded_def sync_actions_def api_request_eq Let_def listed_single)
  then show ?thesis
    using loaded truthy by (simp add: focalboard_sync_template_def)
qed

lemma sync_raises_on_unsortable_titles:
  assumes loaded: "load_template (sync_template_id params) (templates_dir w) = Inr (Some t)"
    and truthy: "t \<noteq> empty_document"
    and board_up: "\<not> is_error (backend (api_calls w) (get_board_request (sync_board_id params)))"
    and cards: "backend (api_calls w @ [(get_board_request (sync_board_id params),
                   backend (api_calls w) (get_board_request (sync_board_id params)))])
                  (get_cards_request (sync_board_id params)) = JsonList cards"
    and unsortable: "listed (missing_from_board (template_tasks_of t) (board_cards_of cards)) = Inl err"
  shows "fst (focalboard_sync_template backend e params w) = Inl TypeError
       \<and> templates_dir (snd (focalboard_sync_template backend e params w)) = templates_dir w"
proof -
  let ?bid = "sync_board_id params"
  let ?board_result = "backend (api_calls w) (get_board_request ?bid)"
  from unsortable have "err = TypeError"
    by (auto simp: listed_def py_sorted_def split: if_splits sum.splits)
  with unsortable have "sync_loaded backend e params t w =
      (Inl TypeError,
       w\<lparr>api_calls := (api_calls w @ [(get_board_request ?bid, ?board_result)])
                          @ [(get_cards_request ?bid, JsonList cards)]\<rparr>)"
    using board_up cards
    by (cases ?board_result) (simp_all add: sync_loaded_def api_request_eq Let_def)
  then show ?thesis
    using loaded truthy by (simp add: focalboard_sync_template_def)
qed

lemma sync_without_saving:
  assumes loaded: "load_template (sync_template_id params) (templates_dir w) = Inr (Some t)"
    and truthy: "t \<noteq> empty_document"
    and dir: "sync_direction params = ''board_to_template''"
    and wet: "\<not> sync_dry_run params"
    and board_up: "\<not> is_error (backend (api_calls w) (get_board_request (sync_board_id params)))"
    and cards: "backend (api_calls w @ [(get_board_request (sync_board_id params),
                   backend (api_calls w) (get_board_request (sync_board_id params)))])
                  (get_cards_request (sync_board_id params)) = JsonList cards"
    and one: "extra_in_board (template_tasks_of t) (board_cards_of cards) = [x]"
    and sortable: "listed (missing_from_board (template_tasks_of t) (board_cards_of cards)) = Inr shown"
    and pending: "pending_proposals (get_or (feedback t) empty_feedback) = Some pending"
    and cannot: "\<not> can_save (sync_template_id params) (templates_dir w)"
  shows "(fst (focalboard_sync_template backend e params w) = Inl OSError
          \<or> (\<exists>r. fst (focalboard_sync_template backend e params w) = Inr (SyncReport r)
                \<and> action_taken r =
                    Proposed [(proposal_id (new_proposal e (sync_board_id params) 0 x), x)]))
       \<and> (\<forall>path. file_at (templates_dir (snd (focalboard_sync_template backend e params w))) path
                  = file_at (templates_dir w) path)"
proof -
  let ?bid = "sync_board_id params"
  let ?id = "sync_template_id params"
  let ?fb = "(get_or (feedback t) empty_feedback)
               \<lparr>pending_proposals := Some (pending @ [new_proposal e ?bid 0 x])\<rparr>"
  let ?t' = "t\<lparr>feedback := Some ?fb\<rparr>"
  let ?board_result = "backend (api_calls w) (get_board_request ?bid)"
  let ?cs1 = "api_calls w @ [(get_board_request ?bid, ?board_result)]"
  let ?w2 = "w\<lparr>api_calls := ?cs1 @ [(get_cards_request ?bid, JsonList cards)]\<rparr>"
  let ?tasks = "template_tasks_of t"
  let ?missing = "missing_from_board ?tasks (board_cards_of cards)"
  let ?done = "Proposed [(proposal_id (new_proposal e ?bid 0 x), x)]"
  let ?r = "\<lparr>missing_total = length ?missing, missing_shown = shown, extra_total = length [x],
             extra_shown = [x], action_taken = ?done,
             template_task_count = length ?tasks,
             board_card_count = length (board_cards_of cards)\<rparr>"
  have appended: "append_proposals e ?bid 0 [x] (get_or (feedback t) empty_feedback) = Inr ?fb"
    using pending by simp
  from loaded_is_listed [OF loaded] obtain category where
    cat: "listed_category ?id (templates_dir w) = Some category"
    by blast
  show ?thesis
  proof (cases "save_if_listed ?t' ?id (templates_dir w)")
    case (Inl err)
    with save_if_listed_result [OF cat, of ?t'] have raised: "err = OSError"
      by (auto split: sum.splits)
    have "sync_actions backend e params t ?tasks ?missing [x] ?w2 = Inl (OSError, ?w2)"
      using dir wet appended Inl raised by (simp add: sync_actions_def propose_extras_def)
    then have "sync_loaded backend e params t w = (Inl OSError, ?w2)"
      using board_up cards one sortable
      by (cases ?board_result)
         (simp_all add: sync_loaded_def api_request_eq Let_def listed_single)
    then show ?thesis
      using loaded truthy by (simp add: focalboard_sync_template_def)
  next
    case (Inr base')
    have "sync_actions backend e params t ?tasks ?missing [x] ?w2
            = Inr (?done, ?w2\<lparr>templates_dir := base'\<rparr>)"
      using dir wet appended Inr by (simp add: sync_actions_def propose_extras_def)
    then have "sync_loaded backend e params t w
                 = (Inr (SyncReport ?r), ?w2\<lparr>templates_dir := base'\<rparr>)"
      using board_up cards one sortable
      by (cases ?board_result)
         (simp_all add: sync_loaded_def api_request_eq Let_def listed_single)
    then have run: "focalboard_sync_template backend e params w
                      = (Inr (SyncReport ?r), ?w2\<lparr>templates_dir := base'\<rparr>)"
      using loaded truthy by (simp add: focalboard_sync_template_def)
    have "file_at base' path = file_at (templates_dir w) path" for path
      using save_if_listed_files [OF cat Inr, of path] cannot by simp
    then show ?thesis
      unfolding run by simp
  qed
qed







subsection \<open>Template tracking\<close>

lemma tracking_keys:
  "map_of [(TRACKING_PROP_TEMPLATE_ID, a), (TRACKING_PROP_TEMPLATE_VERSION, b),
           (TRACKING_PROP_UPGRADE_STATUS, c)] TRACKING_PROP_TEMPLATE_ID = Some a"
  "map_of [(TRACKING_PROP_TEMPLATE_ID, a), (TRACKING_PROP_TEMPLATE_VERSION, b),
           (TRACKING_PROP_UPGRADE_STATUS, c)] TRACKING_PROP_TEMPLATE_VERSION = Some b"
  "map_of [(TRACKING_PROP_TEMPLATE_ID, a), (TRACKING_PROP_TEMPLATE_VERSION, b),
           (TRACKING_PROP_UPGRADE_STATUS, c)] TRACKING_PROP_UPGRADE_STATUS = Some c"
  by (simp_all add: TRACKING_PROP_TEMPLATE_ID_def TRACKING_PROP_TEMPLATE_VERSION_def
        TRACKING_PROP_UPGRADE_STATUS_def)

lemma set_tracking_is_one_update:
  "set_tracking_request params =
     update_properties_request (tracking_board_id params)
       [(TRACKING_PROP_TEMPLATE_ID, tracking_template_id params),
        (TRACKING_PROP_TEMPLATE_VERSION, tracking_template_version params),
        (TRACKING_PROP_UPGRADE_STATUS, tracking_upgrade_status params)]"
  by (simp add: set_tracking_request_def update_properties_request_def)

text \<open>
  The round trip, where the scan of the template directory that the read makes (to look
  for an upgrade) does not raise. On a backend that stores the properties of the board,
  setting the tracking makes one call, an update of the three tracking properties
  together, and getting the tracking of the board after it returns the template id, the
  version and the upgrade status that were set. The template id is not empty: the input
  model of the tool refuses an empty one.
\<close>

lemma set_then_get_tracking:
  assumes faithful: "stores_properties_of backend (tracking_board_id params)"
    and valid: "tracking_template_id params \<noteq> []"
    and readable: "load_template (tracking_template_id params) (templates_dir w) = Inr loaded"
  shows "\<exists>answer tr w2.
           focalboard_set_board_tracking backend params w =
             (TrackingSet (tracking_board_id params) (tracking_template_id params)
                (tracking_template_version params) (tracking_upgrade_status params),
              w\<lparr>api_calls := api_calls w @
                   [(update_properties_request (tracking_board_id params)
                       [(TRACKING_PROP_TEMPLATE_ID, tracking_template_id params),
                        (TRACKING_PROP_TEMPLATE_VERSION, tracking_template_version params),
                        (TRACKING_PROP_UPGRADE_STATUS, tracking_upgrade_status params)],
                     answer)]\<rparr>)
         \<and> focalboard_get_board_tracking backend (tracking_board_id params)
             (snd (focalboard_set_board_tracking backend params w)) = (Inr (Tracked tr), w2)
         \<and> tracked_board_id tr = tracking_board_id params
         \<and> tracked_template_id tr = tracking_template_id params
         \<and> tracked_template_version tr = tracking_template_version params
         \<and> tracked_upgrade_status tr = tracking_upgrade_status params"
proof -
  let ?bid = "tracking_board_id params"
  let ?props = "[(TRACKING_PROP_TEMPLATE_ID, tracking_template_id params),
                 (TRACKING_PROP_TEMPLATE_VERSION, tracking_template_version params),
                 (TRACKING_PROP_UPGRADE_STATUS, tracking_upgrade_status params)]"
  let ?patch = "update_properties_request ?bid ?props"
  let ?answer = "backend (api_calls w) ?patch"
  let ?w1 = "w\<lparr>api_calls := api_calls w @ [(?patch, ?answer)]\<rparr>"
  from faithful have accepted: "\<not> is_error ?answer"
    and "\<exists>b. backend (api_calls w @ [(?patch, ?answer)]) (get_board_request ?bid) = Dict b
           \<and> (\<forall>k v. map_of ?props k = Some v \<longrightarrow> map_of (get_or (obj_properties b) []) k = Some v)"
    unfolding stores_properties_of_def by blast+
  then obtain b where
    read: "backend (api_calls w @ [(?patch, ?answer)]) (get_board_request ?bid) = Dict b"
    and kept: "\<And>k v. map_of ?props k = Some v \<Longrightarrow> map_of (get_or (obj_properties b) []) k = Some v"
    by blast
  have written: "focalboard_set_board_tracking backend params w =
      (TrackingSet ?bid (tracking_template_id params) (tracking_template_version params)
         (tracking_upgrade_status params), ?w1)"
    using accepted
    by (cases ?answer)
       (simp_all add: focalboard_set_board_tracking_def api_request_eq Let_def
          set_tracking_is_one_update)
  have got: "dict_get (get_or (obj_properties b) []) TRACKING_PROP_TEMPLATE_ID []
               = tracking_template_id params"
    "dict_get (get_or (obj_properties b) []) TRACKING_PROP_TEMPLATE_VERSION []
               = tracking_template_version params"
    "dict_get (get_or (obj_properties b) []) TRACKING_PROP_UPGRADE_STATUS []
               = tracking_upgrade_status params"
    using kept [OF tracking_keys(1)] kept [OF tracking_keys(2)] kept [OF tracking_keys(3)]
    by (simp_all add: dict_get_def)
  let ?tr = "\<lparr>tracked_board_id = ?bid,
              tracked_board_title = get_or (obj_title b) ''Unknown'',
              tracked_template_id = tracking_template_id params,
              tracked_template_version = tracking_template_version params,
              tracked_upgrade_status = tracking_upgrade_status params,
              upgrade_available =
                (case loaded of
                   None \<Rightarrow> None
                 | Some t \<Rightarrow>
                    (let current = get_or (meta_version (get_or (meta t) empty_meta)) ''0.0.0''
                     in if t \<noteq> empty_document \<and> current \<noteq> tracking_template_version params
                        then Some current else None))\<rparr>"
  have "focalboard_get_board_tracking backend ?bid ?w1 =
          (Inr (Tracked ?tr),
           ?w1\<lparr>api_calls := api_calls ?w1 @ [(get_board_request ?bid, Dict b)]\<rparr>)"
    using read valid readable
    by (simp add: focalboard_get_board_tracking_def api_request_eq Let_def got split: option.splits)
  with written show ?thesis by auto
qed

lemma property_store_is_faithful: "stores_properties_of property_store_api board_id"
  by (simp add: stores_properties_of_def property_store_api_def update_properties_request_def
        get_board_request_def empty_object_def get_or_def)

lemma set_then_get_tracking_demo:
  "fst (focalboard_get_board_tracking property_store_api ''board-1''
        (snd (focalboard_set_board_tracking property_store_api demo_tracking demo_world))) =
       Inr (Tracked
         \<lparr>tracked_board_id = ''board-1'', tracked_board_title = ''Unknown'',
          tracked_template_id = ''demo'', tracked_template_version = ''1.0.0'',
          tracked_upgrade_status = ''current'', upgrade_available = None\<rparr>)"
  by (simp add: focalboard_get_board_tracking_def focalboard_set_board_tracking_def
        api_request_def Let_def set_tracking_request_def get_board_request_def
        property_store_api_def demo_tracking_def demo_world_def demo_loads empty_object_def
        dict_get_def get_or_def TRACKING_PROP_TEMPLATE_ID_def
        TRACKING_PROP_TEMPLATE_VERSION_def TRACKING_PROP_UPGRADE_STATUS_def
        demo_template_def empty_meta_def empty_document_def)

text \<open>
  Claim C8, at an input that the claim covers: the backend stores the properties, and the
  template directory holds the valid template beside a \<^verbatim>\<open>template.json\<close> that is the
  JSON array \<^verbatim>\<open>[]\<close>. Setting the tracking succeeds with one call; getting it reads the
  three properties back from the board and then raises \<^verbatim>\<open>AttributeError\<close> in the scan of
  the template directory, instead of returning them.
\<close>

theorem tracking_read_raises_on_array_file:
  "focalboard_set_board_tracking property_store_api demo_tracking array_file_world =
     (TrackingSet ''board-1'' ''demo'' ''1.0.0'' ''current'',
      array_file_world\<lparr>api_calls := [(set_tracking_request demo_tracking, Dict empty_object)]\<rparr>)
   \<and> property_store_api [(set_tracking_request demo_tracking, Dict empty_object)]
        (get_board_request ''board-1'') =
       Dict (empty_object\<lparr>obj_properties := Some
         [(TRACKING_PROP_TEMPLATE_ID, ''demo''), (TRACKING_PROP_TEMPLATE_VERSION, ''1.0.0''),
          (TRACKING_PROP_UPGRADE_STATUS, ''current'')]\<rparr>)
   \<and> fst (focalboard_get_board_tracking property_store_api ''board-1''
          (snd (focalboard_set_board_tracking property_store_api demo_tracking array_file_world)))
       = Inl AttributeError"
  by (simp add: focalboard_get_board_tracking_def focalboard_set_board_tracking_def
        api_request_def Let_def set_tracking_request_def get_board_request_def
        property_store_api_def demo_tracking_def array_file_world_def array_file_base_def
        empty_object_def dict_get_def get_or_def TRACKING_PROP_TEMPLATE_ID_def
        TRACKING_PROP_TEMPLATE_VERSION_def TRACKING_PROP_UPGRADE_STATUS_def
        load_template_def discover_templates_def filtered_out_def)


end
